theory Spec2Isabelle
  imports Main "HOL-Library.Sublist"
begin

section \<open>JavaScript values\<close>

text \<open>
  The values that flow through the plugin: settings, extracted parameter objects, query
  parameters and response bodies. Numbers are modelled by the integers: every number the
  plugin itself writes (limits, offsets, pages, unix timestamps) is one, and the plugin
  performs no arithmetic. An object is an association list in property order.
\<close>

datatype jsval =
    JUndefined
  | JNull
  | JBool bool
  | JNum int
  | JStr string
  | JArr "jsval list"
  | JObj "(string \<times> jsval) list"

definition NL :: string where
  "NL = [CHR 0x0A]"

definition DQ :: string where
  "DQ = [CHR 0x22]"

definition intercalate :: "string \<Rightarrow> string list \<Rightarrow> string" where
  "intercalate sep xs = (case xs of [] \<Rightarrow> [] | y # ys \<Rightarrow> y @ concat (map (\<lambda>z. sep @ z) ys))"

definition js_lines :: "string list \<Rightarrow> string" where
  "js_lines ls = intercalate NL ls"

text \<open>The \<open>typeof\<close> operator.\<close>

fun typeof :: "jsval \<Rightarrow> string" where
  "typeof JUndefined = ''undefined''"
| "typeof JNull = ''object''"
| "typeof (JBool b) = ''boolean''"
| "typeof (JNum n) = ''number''"
| "typeof (JStr s) = ''string''"
| "typeof (JArr xs) = ''object''"
| "typeof (JObj kvs) = ''object''"

text \<open>Truthiness, and \<open>a || b\<close>.\<close>

fun truthy :: "jsval \<Rightarrow> bool" where
  "truthy JUndefined = False"
| "truthy JNull = False"
| "truthy (JBool b) = b"
| "truthy (JNum n) = (n \<noteq> 0)"
| "truthy (JStr s) = (s \<noteq> [])"
| "truthy (JArr xs) = True"
| "truthy (JObj kvs) = True"

definition js_or :: "jsval \<Rightarrow> jsval \<Rightarrow> jsval" where
  "js_or a b = (if truthy a then a else b)"

text \<open>
  \<open>a === b\<close> on the values compared in this program (a string against \<open>void 0\<close>, a
  property against \<open>void 0\<close>): equal tag and equal content.
\<close>

definition strict_eq :: "jsval \<Rightarrow> jsval \<Rightarrow> bool" where
  "strict_eq a b = (a = b)"

text \<open>
  Property read \<open>content.k\<close> for the keys this program reads. On \<open>undefined\<close> and
  \<open>null\<close> the read throws a TypeError (see \<open>nullish\<close>, checked by the callers before
  the first read); on any other non-object there is no such property.
\<close>

fun js_get :: "jsval \<Rightarrow> string \<Rightarrow> jsval" where
  "js_get (JObj kvs) k = (case map_of kvs k of None \<Rightarrow> JUndefined | Some v \<Rightarrow> v)"
| "js_get v k = JUndefined"

definition nullish :: "jsval \<Rightarrow> bool" where
  "nullish v = (v = JUndefined \<or> v = JNull)"

text \<open>A destructuring default \<open>{ k = d } = content\<close> applies exactly when the property is \<open>undefined\<close>.\<close>

definition dflt :: "jsval \<Rightarrow> jsval \<Rightarrow> jsval" where
  "dflt v d = (if v = JUndefined then d else v)"

subsection \<open>Conversion to text\<close>

fun show_nat :: "nat \<Rightarrow> string" where
  "show_nat n =
     (if n < 10 then [''0123456789'' ! n]
      else show_nat (n div 10) @ [''0123456789'' ! (n mod 10)])"

declare show_nat.simps [simp del]

definition show_int :: "int \<Rightarrow> string" where
  "show_int i = (if i < 0 then ''-'' @ show_nat (nat (- i)) else show_nat (nat i))"

text \<open>\<open>`${v}`\<close>: the ToString conversion of a template literal.\<close>

fun toString :: "jsval \<Rightarrow> string" where
  "toString JUndefined = ''undefined''"
| "toString JNull = ''null''"
| "toString (JBool b) = (if b then ''true'' else ''false'')"
| "toString (JNum n) = show_int n"
| "toString (JStr s) = s"
| "toString (JArr xs) =
     intercalate '','' (map (\<lambda>x. if x = JUndefined \<or> x = JNull then [] else toString x) xs)"
| "toString (JObj kvs) = ''[object Object]''"

definition hex_digit :: "nat \<Rightarrow> char" where
  "hex_digit n = ''0123456789abcdef'' ! n"

definition escape_char :: "char \<Rightarrow> string" where
  "escape_char c =
    (if c = CHR 0x22 then [CHR 0x5C, CHR 0x22]
     else if c = CHR 0x5C then [CHR 0x5C, CHR 0x5C]
     else if c = CHR 0x08 then [CHR 0x5C, CHR ''b'']
     else if c = CHR 0x0C then [CHR 0x5C, CHR ''f'']
     else if c = CHR 0x0A then [CHR 0x5C, CHR ''n'']
     else if c = CHR 0x0D then [CHR 0x5C, CHR ''r'']
     else if c = CHR 0x09 then [CHR 0x5C, CHR ''t'']
     else if of_char c < (32::nat) then
       [CHR 0x5C, CHR ''u'', CHR ''0'', CHR ''0'',
        hex_digit (of_char c div 16), hex_digit (of_char c mod 16)]
     else [c])"

definition quote :: "string \<Rightarrow> string" where
  "quote s = DQ @ concat (map escape_char s) @ DQ"

text \<open>
  \<open>JSON.stringify(v)\<close>. A property whose value is \<open>undefined\<close> is left out, an
  \<open>undefined\<close> array element is written \<open>null\<close>; \<open>JSON.stringify(undefined)\<close> is
  \<open>undefined\<close>, which the template literal around every call in this program renders as
  the text \<open>undefined\<close>.
\<close>

fun JSON_stringify :: "jsval \<Rightarrow> string" where
  "JSON_stringify JUndefined = ''undefined''"
| "JSON_stringify JNull = ''null''"
| "JSON_stringify (JBool b) = (if b then ''true'' else ''false'')"
| "JSON_stringify (JNum n) = show_int n"
| "JSON_stringify (JStr s) = quote s"
| "JSON_stringify (JArr xs) =
     ''['' @ intercalate '',''
              (map (\<lambda>x. if x = JUndefined then ''null'' else JSON_stringify x) xs) @ '']''"
| "JSON_stringify (JObj kvs) =
     ''{'' @ intercalate '',''
              (map (\<lambda>(k, v). quote k @ '':'' @ JSON_stringify v)
                 (filter (\<lambda>(k, v). v \<noteq> JUndefined) kvs)) @ ''}''"

definition spaces :: "nat \<Rightarrow> string" where
  "spaces n = replicate n CHR '' ''"

text \<open>\<open>JSON.stringify(v, null, gap)\<close> at the current indentation \<open>ind\<close>.\<close>

fun stringify_indent :: "nat \<Rightarrow> nat \<Rightarrow> jsval \<Rightarrow> string" where
  "stringify_indent gap ind JUndefined = ''undefined''"
| "stringify_indent gap ind JNull = ''null''"
| "stringify_indent gap ind (JBool b) = (if b then ''true'' else ''false'')"
| "stringify_indent gap ind (JNum n) = show_int n"
| "stringify_indent gap ind (JStr s) = quote s"
| "stringify_indent gap ind (JArr xs) =
    (if xs = [] then ''[]''
     else ''['' @ NL @ spaces (ind + gap)
       @ intercalate ('','' @ NL @ spaces (ind + gap))
           (map (\<lambda>x. if x = JUndefined then ''null''
                      else stringify_indent gap (ind + gap) x) xs)
       @ NL @ spaces ind @ '']'')"
| "stringify_indent gap ind (JObj kvs) =
    (let ps = filter (\<lambda>(k, v). v \<noteq> JUndefined) kvs in
     if ps = [] then ''{}''
     else ''{'' @ NL @ spaces (ind + gap)
       @ intercalate ('','' @ NL @ spaces (ind + gap))
           (map (\<lambda>(k, v). quote k @ '': '' @ stringify_indent gap (ind + gap) v) ps)
       @ NL @ spaces ind @ ''}'')"

text \<open>\<open>JSON.stringify(v, null, 2)\<close>.\<close>

definition JSON_stringify2 :: "jsval \<Rightarrow> string" where
  "JSON_stringify2 v = stringify_indent 2 0 v"

section \<open>Errors and the outside world\<close>

text \<open>A thrown \<open>Error\<close>; the handlers read only its \<open>message\<close>.\<close>

datatype error = Error (message: string)

type_synonym memory = string
type_synonym state = string

text \<open>An \<open>axios.get(url, { headers, params })\<close> call; \<open>params\<close> is \<open>None\<close> when the call passes none.\<close>

record request =
  url :: string
  headers :: "(string \<times> jsval) list"
  params :: "(string \<times> jsval) list option"

text \<open>
  Everything a handler obtains from outside: the runtime's settings lookup and state
  functions, the process environment, the core library's prompt composition and model
  calls, and the HTTP client. A call that rejects or throws is \<open>Inl\<close>. The HTTP client
  returns \<open>response.data\<close>; a network failure or a non-2xx status is \<open>Inl\<close>. The object
  generator returns the \<open>.object\<close> of its result, for a context and a schema name.
\<close>

record world =
  getSetting :: "string \<Rightarrow> jsval"
  process_env :: "string \<Rightarrow> string option"
  composeState :: "memory \<Rightarrow> error + state"
  updateRecentMessageState :: "state \<Rightarrow> error + state"
  composeContext :: "state \<Rightarrow> string \<Rightarrow> string"
  generateObject :: "string \<Rightarrow> string \<Rightarrow> error + jsval"
  generateText :: "string \<Rightarrow> error + string"
  axios_get :: "request \<Rightarrow> error + jsval"

text \<open>\<open>process.env.K\<close>: the variable's text, or \<open>undefined\<close>.\<close>

definition env_value :: "world \<Rightarrow> string \<Rightarrow> jsval" where
  "env_value w k = (case process_env w k of None \<Rightarrow> JUndefined | Some s \<Rightarrow> JStr s)"

section \<open>Configuration (src/environment.ts)\<close>

text \<open>
  The schema library's contract, as far as \<open>elfaAiEnvSchema\<close> uses it. An issue carries
  a path and a message. \<open>z.string().min(1, msg)\<close> reports a non-string with the library's
  type message (\<open>Required\<close> for \<open>undefined\<close>) and a string shorter than 1 with \<open>msg\<close>.
  \<open>z.object\<close> checks every key of its shape in order and collects all issues; \<open>parse\<close>
  throws them together.
\<close>

record zod_issue =
  path :: "string list"
  issue_message :: string

fun getParsedType :: "jsval \<Rightarrow> string" where
  "getParsedType JUndefined = ''undefined''"
| "getParsedType JNull = ''null''"
| "getParsedType (JBool b) = ''boolean''"
| "getParsedType (JNum n) = ''number''"
| "getParsedType (JStr s) = ''string''"
| "getParsedType (JArr xs) = ''array''"
| "getParsedType (JObj kvs) = ''object''"

definition z_string_min :: "nat \<Rightarrow> string \<Rightarrow> string list \<Rightarrow> jsval \<Rightarrow> zod_issue list" where
  "z_string_min n msg p v =
     (case v of
        JStr s \<Rightarrow> (if length s < n then [\<lparr>path = p, issue_message = msg\<rparr>] else [])
      | JUndefined \<Rightarrow> [\<lparr>path = p, issue_message = ''Required''\<rparr>]
      | _ \<Rightarrow> [\<lparr>path = p, issue_message = ''Expected string, received '' @ getParsedType v\<rparr>])"

record elfa_config =
  ELFA_AI_BASE_URL :: string
  ELFA_AI_API_KEY :: string

text \<open>\<open>elfaAiEnvSchema.parse(config)\<close>: the parsed configuration, or the issues of a ZodError.\<close>

definition elfaAiEnvSchema_parse :: "(string \<times> jsval) list \<Rightarrow> zod_issue list + elfa_config" where
  "elfaAiEnvSchema_parse config =
     (let b = js_get (JObj config) ''ELFA_AI_BASE_URL'';
          a = js_get (JObj config) ''ELFA_AI_API_KEY'';
          issues =
            z_string_min 1 ''Base URL is required for interacting with Elfa AI''
              [''ELFA_AI_BASE_URL''] b
            @ z_string_min 1 ''API key is required for interacting with Elfa AI''
                [''ELFA_AI_API_KEY''] a
      in if issues = [] then Inr \<lparr>ELFA_AI_BASE_URL = toString b, ELFA_AI_API_KEY = toString a\<rparr>
         else Inl issues)"

definition validateElfaAiConfig :: "world \<Rightarrow> error + elfa_config" where
  "validateElfaAiConfig runtime =
     (let config =
            [(''ELFA_AI_BASE_URL'',
                js_or (getSetting runtime ''ELFA_AI_BASE_URL'') (env_value runtime ''ELFA_AI_BASE_URL'')),
             (''ELFA_AI_API_KEY'',
                js_or (getSetting runtime ''ELFA_AI_API_KEY'') (env_value runtime ''ELFA_AI_API_KEY''))]
      in case elfaAiEnvSchema_parse config of
           Inr parsed \<Rightarrow> Inr parsed
         | Inl errors \<Rightarrow>
             (let errorMessages =
                    intercalate NL
                      (map (\<lambda>err. intercalate ''.'' (path err) @ '': '' @ issue_message err) errors)
              in Inl (Error (''Elfa AI configuration validation failed:'' @ NL @ errorMessages))))"

section \<open>Effects of a handler\<close>

text \<open>The argument of the \<open>callback\<close>: \<open>{ text, action }\<close> or \<open>{ text, content }\<close>.\<close>

record emitted =
  msg_text :: string
  msg_action :: "string option"
  msg_content :: "(string \<times> jsval) list option"

text \<open>What a handler does that is visible outside it, in the order it does it.\<close>

datatype event =
    EvGetSetting string
  | EvComposeState memory
  | EvUpdateRecentMessageState state
  | EvGenerateObject string string
  | EvHttpGet request
  | EvGenerateText string
  | EvCallback emitted
  | EvLogInfo string jsval
  | EvLogError string error

text \<open>
  A computation inside a handler: the events so far, and a value or the thrown error.
  \<open>andThen\<close> is sequencing (\<open>await\<close> and \<open>;\<close>): after an error nothing more runs.
  \<open>try_catch\<close> is \<open>try { ... } catch (error) { ... }\<close>.
\<close>

type_synonym 'a eff = "event list \<times> (error + 'a)"

definition ret :: "'a \<Rightarrow> 'a eff" where
  "ret x = ([], Inr x)"

definition lift :: "error + 'a \<Rightarrow> 'a eff" where
  "lift r = ([], r)"

definition call :: "event \<Rightarrow> error + 'a \<Rightarrow> 'a eff" where
  "call ev r = ([ev], r)"

definition andThen :: "'a eff \<Rightarrow> ('a \<Rightarrow> 'b eff) \<Rightarrow> 'b eff" where
  "andThen m f =
     (case m of
        (t, Inl e) \<Rightarrow> (t, Inl e)
      | (t, Inr a) \<Rightarrow> (case f a of (t', r) \<Rightarrow> (t @ t', r)))"

definition try_catch :: "'a eff \<Rightarrow> (error \<Rightarrow> 'a eff) \<Rightarrow> 'a eff" where
  "try_catch m h =
     (case m of
        (t, Inl e) \<Rightarrow> (case h e of (t', r) \<Rightarrow> (t @ t', r))
      | (t, Inr a) \<Rightarrow> (t, Inr a))"

text \<open>\<open>runtime.getSetting(k)\<close>.\<close>

definition read_setting :: "world \<Rightarrow> string \<Rightarrow> jsval eff" where
  "read_setting runtime k = call (EvGetSetting k) (Inr (getSetting runtime k))"

text \<open>\<open>(await axios.get(url, config)).data\<close>.\<close>

definition call_axios :: "world \<Rightarrow> request \<Rightarrow> jsval eff" where
  "call_axios runtime req = call (EvHttpGet req) (axios_get runtime req)"

text \<open>\<open>callback?.(m)\<close>: nothing happens when no callback was passed.\<close>

definition emit :: "bool \<Rightarrow> emitted \<Rightarrow> unit eff" where
  "emit callback m = ((if callback then [EvCallback m] else []), Inr ())"

text \<open>The TypeError of reading property \<open>k\<close> of \<open>undefined\<close> or \<open>null\<close>.\<close>

definition type_error :: "jsval \<Rightarrow> string \<Rightarrow> error" where
  "type_error v k =
     Error (''Cannot read properties of '' @ toString v @ '' (reading '' @ [CHR 0x27] @ k @ [CHR 0x27] @ '')'')"

section \<open>Prompt templates\<close>

definition getSmartMentionsTemplate :: string where
  "getSmartMentionsTemplate = js_lines
    [''Respond with a JSON object containing only the extracted information:'',
     '''',
     ''Example response:'',
     ''```json'',
     ''{'',
     ''    '' @ DQ @ ''limit'' @ DQ @ '': 100,'',
     ''    '' @ DQ @ ''offset'' @ DQ @ '': 0'',
     ''}'',
     ''```'',
     '''',
     ''{{recentMessages}}'',
     '''',
     ''Given the recent messages, extract the following information about the requested smart mentions:'',
     ''- Limit: The number of smart mentions to retrieve.'',
     ''- Offset: The offset to start retrieving smart mentions from.'',
     '''',
     ''Respond with a JSON object containing only the extracted information'',
     '''']"

definition getTopMentionsTemplate :: string where
  "getTopMentionsTemplate = js_lines
    [''Respond with a JSON object containing only the extracted information:'',
     '''',
     ''Example response:'',
     ''```json'',
     ''{'',
     ''    '' @ DQ @ ''ticker'' @ DQ @ '': '' @ DQ @ ''SOL'' @ DQ @ '','',
     ''    '' @ DQ @ ''timeWindow'' @ DQ @ '': '' @ DQ @ ''1h'' @ DQ @ '','',
     ''    '' @ DQ @ ''page'' @ DQ @ '': 1,'',
     ''    '' @ DQ @ ''pageSize'' @ DQ @ '': 10,'',
     ''    '' @ DQ @ ''includeAccountDetails'' @ DQ @ '': false'',
     ''}'',
     ''```'',
     '''',
     ''{{recentMessages}}'',
     '''',
     ''Given the recent messages, extract the following information about the requested top mentions:'',
     ''- ticker: symbol to retrieve mentions for.'',
     ''- timeWindow: Time window for mentions eg - 1h, 24h, 7d (default: 1h).'',
     ''- page: Page number for pagination (default: 1).'',
     ''- pageSize: Number of mentions per page (default: 10).'',
     ''- includeAccountDetails: Include account details in the response (default: false).'',
     '''',
     ''Respond with a JSON object containing only the extracted information'',
     '''']"

definition getSearchMentionsByKeywordsTemplate :: string where
  "getSearchMentionsByKeywordsTemplate = js_lines
    [''Respond with a JSON object containing only the extracted information:'',
     '''',
     ''Example response:'',
     ''```json'',
     ''{'',
     ''    '' @ DQ @ ''keywords'' @ DQ @ '': '' @ DQ @ ''ai agents'' @ DQ @ '','',
     ''    '' @ DQ @ ''from'' @ DQ @ '': 1738675001,'',
     ''    '' @ DQ @ ''to'' @ DQ @ '': 1738775001,'',
     ''    limit: 20'',
     ''}'',
     ''```'',
     '''',
     ''{{recentMessages}}'',
     '''',
     ''Given the recent messages, extract the following information about the requested search mentions by keywords:'',
     ''- keywords: Keywords to search for, separated by commas.'',
     ''- from: Start date as unix timestamp.'',
     ''- to: End date as unix timestamp.'',
     ''- limit: Number of tweets to retrieve (default: 20).'',
     '''',
     ''Respond with a JSON object containing only the extracted information'',
     '''']"

definition getTrendingTokensTemplate :: string where
  "getTrendingTokensTemplate = js_lines
    [''Respond with a JSON object containing only the extracted information:'',
     '''',
     ''Example response:'',
     ''```json'',
     ''{'',
     ''    '' @ DQ @ ''timeWindow'' @ DQ @ '': '' @ DQ @ ''24h'' @ DQ @ '','',
     ''    '' @ DQ @ ''page'' @ DQ @ '': 1,'',
     ''    '' @ DQ @ ''pageSize'' @ DQ @ '': 50,'',
     ''    '' @ DQ @ ''minMentions'' @ DQ @ '': 5'',
     ''}'',
     ''```'',
     '''',
     ''{{recentMessages}}'',
     '''',
     ''Given the recent messages, extract the following information about the trending tokens:'',
     ''- timeWindow: Time window for mentions.'',
     ''- page: Page number for pagination.'',
     ''- pageSize: Number of tokens per page.'',
     ''- minMentions: Minimum number of mentions for a token to be considered trending.'',
     '''',
     ''Respond with a JSON object containing only the extracted information'',
     '''']"

definition getTwitterAccountStatsTemplate :: string where
  "getTwitterAccountStatsTemplate = js_lines
    [''Respond with a JSON object containing only the extracted information:'',
     '''',
     ''Example response:'',
     ''```json'',
     ''{'',
     ''    '' @ DQ @ ''username'' @ DQ @ '': '' @ DQ @ ''elonmusk'' @ DQ @ '','',
     ''}'',
     ''```'',
     '''',
     ''{{recentMessages}}'',
     '''',
     ''Given the recent messages, extract the following information for the requested Twitter account smart stats:'',
     ''- username: Twitter username to retrieve smart account stats for.'',
     '''',
     ''Respond with a JSON object containing only the extracted information'',
     '''']"


section \<open>Type guards of the extracted content\<close>

definition isGetSmartMentionsContent :: "jsval \<Rightarrow> error + bool" where
  "isGetSmartMentionsContent content =
     (if nullish content then Inl (type_error content ''limit'')
      else Inr (typeof (js_get content ''limit'') = ''number''
                \<and> typeof (js_get content ''offset'') = ''number''))"

definition isGetTopMentionsContent :: "jsval \<Rightarrow> error + bool" where
  "isGetTopMentionsContent content =
     (if nullish content then Inl (type_error content ''ticker'')
      else Inr (typeof (js_get content ''ticker'') = ''string''
                \<and> (strict_eq (js_get content ''timeWindow'') JUndefined
                     \<or> typeof (js_get content ''timeWindow'') = ''string'')
                \<and> (strict_eq (js_get content ''page'') JUndefined
                     \<or> typeof (js_get content ''page'') = ''number'')
                \<and> (strict_eq (js_get content ''pageSize'') JUndefined
                     \<or> typeof (js_get content ''pageSize'') = ''number'')
                \<and> (strict_eq (js_get content ''includeAccountDetails'') JUndefined
                     \<or> typeof (js_get content ''includeAccountDetails'') = ''boolean'')))"

definition isGetSearchMentionsByKeywordsContent :: "jsval \<Rightarrow> error + bool" where
  "isGetSearchMentionsByKeywordsContent content =
     (if nullish content then Inl (type_error content ''keywords'')
      else Inr (typeof (js_get content ''keywords'') = ''string''
                \<and> typeof (js_get content ''from'') = ''number''
                \<and> typeof (js_get content ''to'') = ''number''
                \<and> (typeof (js_get content ''limit'') = ''number''
                     \<or> strict_eq (js_get content ''limit'') JUndefined)))"

text \<open>
  The source compares the result of \<open>typeof\<close>, a string, with \<open>void 0\<close>; \<open>&&\<close> binds
  tighter than \<open>||\<close>.
\<close>

definition isGetTrendingTokensContent :: "jsval \<Rightarrow> error + bool" where
  "isGetTrendingTokensContent content =
     (if nullish content then Inl (type_error content ''timeWindow'')
      else Inr (typeof (js_get content ''timeWindow'') = ''string''
                \<or> (strict_eq (JStr (typeof (js_get content ''timeWindow''))) JUndefined
                     \<and> typeof (js_get content ''page'') = ''number'')
                \<or> (strict_eq (JStr (typeof (js_get content ''page''))) JUndefined
                     \<and> typeof (js_get content ''pageSize'') = ''number'')
                \<or> (strict_eq (JStr (typeof (js_get content ''pageSize''))) JUndefined
                     \<and> typeof (js_get content ''minMentions'') = ''number'')
                \<or> strict_eq (JStr (typeof (js_get content ''minMentions''))) JUndefined))"

definition isGetTwitterAccountStatsContent :: "jsval \<Rightarrow> error + bool" where
  "isGetTwitterAccountStatsContent content =
     (if nullish content then Inl (type_error content ''username'')
      else Inr (typeof (js_get content ''username'') = ''string''))"

section \<open>The seven actions\<close>

text \<open>
  A handler receives the runtime (with the rest of the outside world), the message, the
  state if there is one, and whether a callback was passed; the options are not read.
  It yields its events and the value its promise resolves to, or the error it rejects with.
\<close>

record action =
  name :: string
  similes :: "string list"
  description :: string
  validate :: "world \<Rightarrow> error + bool"
  handler :: "world \<Rightarrow> memory \<Rightarrow> state option \<Rightarrow> bool \<Rightarrow> bool eff"

subsection \<open>src/actions/ping.ts\<close>

definition elfaPingAction_validate :: "world \<Rightarrow> error + bool" where
  "elfaPingAction_validate runtime =
     (case validateElfaAiConfig runtime of Inl e \<Rightarrow> Inl e | Inr config \<Rightarrow> Inr True)"

definition elfaPingAction_handler :: "world \<Rightarrow> memory \<Rightarrow> state option \<Rightarrow> bool \<Rightarrow> bool eff" where
  "elfaPingAction_handler runtime msg st callback =
     try_catch
       (andThen (read_setting runtime ''ELFA_AI_BASE_URL'') (\<lambda>baseUrl.
        andThen (read_setting runtime ''ELFA_AI_API_KEY'') (\<lambda>apiKey.
        let headers = [(''Content-Type'', JStr ''application/json''), (''x-elfa-api-key'', apiKey)] in
        andThen (call_axios runtime
                   \<lparr>url = toString baseUrl @ ''/v1/ping'', headers = headers, params = None\<rparr>)
          (\<lambda>responseData.
        andThen (emit callback
                   \<lparr>msg_text = ''Elfa AI API is up and running. Response: '' @ JSON_stringify responseData,
                    msg_action = Some ''ELFA_PING'',
                    msg_content = None\<rparr>) (\<lambda>_.
        andThen (call (EvLogInfo ''Elfa AI API is up and running'' responseData) (Inr ())) (\<lambda>_.
        ret True))))))
       (\<lambda>error.
        andThen (call (EvLogError ''Failed to ping Elfa AI API'' error) (Inr ())) (\<lambda>_.
        andThen (emit callback
                   \<lparr>msg_text = ''Elfa AI API is down. Please check the API status.'' @ NL
                      @ ''Error:'' @ NL
                      @ message error,
                    msg_action = Some ''ELFA_PING'',
                    msg_content = None\<rparr>) (\<lambda>_.
        ret False)))"

definition elfaPingAction :: action where
  "elfaPingAction =
     \<lparr>name = ''ELFA_PING'',
      similes = [''ping elfa'', ''elfa health check'', ''check elfa api''],
      description = ''Checks the health of the Elfa AI API by pinging it.'',
      validate = elfaPingAction_validate,
      handler = elfaPingAction_handler\<rparr>"

subsection \<open>src/actions/apiKeyStatus.ts\<close>

definition elfaApiKeyStatusAction_validate :: "world \<Rightarrow> error + bool" where
  "elfaApiKeyStatusAction_validate runtime =
     (case validateElfaAiConfig runtime of Inl e \<Rightarrow> Inl e | Inr config \<Rightarrow> Inr True)"

definition elfaApiKeyStatusAction_handler :: "world \<Rightarrow> memory \<Rightarrow> state option \<Rightarrow> bool \<Rightarrow> bool eff" where
  "elfaApiKeyStatusAction_handler runtime msg st callback =
     try_catch
       (andThen (read_setting runtime ''ELFA_AI_BASE_URL'') (\<lambda>baseUrl.
        andThen (read_setting runtime ''ELFA_AI_API_KEY'') (\<lambda>apiKey.
        let headers = [(''Content-Type'', JStr ''application/json''), (''x-elfa-api-key'', apiKey)] in
        andThen (call_axios runtime
                   \<lparr>url = toString baseUrl @ ''/v1/key-status'', headers = headers, params = None\<rparr>)
          (\<lambda>responseData.
        andThen (emit callback
                   \<lparr>msg_text = ''Elfa AI API key status. Response: '' @ JSON_stringify responseData,
                    msg_action = Some ''ELFA_API_KEY_STATUS'',
                    msg_content = None\<rparr>) (\<lambda>_.
        andThen (call (EvLogInfo ''Elfa AI API key status'' responseData) (Inr ())) (\<lambda>_.
        ret True))))))
       (\<lambda>error.
        andThen (call (EvLogError ''Failed to get api key status from Elfa AI API'' error) (Inr ())) (\<lambda>_.
        andThen (emit callback
                   \<lparr>msg_text = ''Failed to get api key status from Elfa AI. Please check the your API key.'' @ NL
                      @ ''Error:'' @ NL
                      @ message error,
                    msg_action = Some ''ELFA_API_KEY_STATUS'',
                    msg_content = None\<rparr>) (\<lambda>_.
        ret False)))"

definition elfaApiKeyStatusAction :: action where
  "elfaApiKeyStatusAction =
     \<lparr>name = ''ELFA_API_KEY_STATUS'',
      similes = [''elfa api key status'', ''check api key'', ''api key info''],
      description = ''Retrieves the status and usage details of the Elfa AI API key.'',
      validate = elfaApiKeyStatusAction_validate,
      handler = elfaApiKeyStatusAction_handler\<rparr>"

subsection \<open>src/actions/getSmartMentions.ts\<close>

definition elfaGetSmartMentions_validate :: "world \<Rightarrow> error + bool" where
  "elfaGetSmartMentions_validate runtime =
     (case validateElfaAiConfig runtime of Inl e \<Rightarrow> Inl e | Inr config \<Rightarrow> Inr True)"

definition elfaGetSmartMentions_handler :: "world \<Rightarrow> memory \<Rightarrow> state option \<Rightarrow> bool \<Rightarrow> bool eff" where
  "elfaGetSmartMentions_handler runtime msg st callback =
     try_catch
       (andThen (read_setting runtime ''ELFA_AI_BASE_URL'') (\<lambda>baseUrl.
        andThen (read_setting runtime ''ELFA_AI_API_KEY'') (\<lambda>apiKey.
        let headers = [(''Content-Type'', JStr ''application/json''), (''x-elfa-api-key'', apiKey)] in
        andThen (case st of
                   None \<Rightarrow> call (EvComposeState msg) (composeState runtime msg)
                 | Some s \<Rightarrow> call (EvUpdateRecentMessageState s) (updateRecentMessageState runtime s))
          (\<lambda>updatedState.
        let context = composeContext runtime updatedState getSmartMentionsTemplate in
        andThen (call (EvGenerateObject context ''GetSmartMentionsSchema'')
                   (generateObject runtime context ''GetSmartMentionsSchema'')) (\<lambda>content.
        andThen (lift (isGetSmartMentionsContent content)) (\<lambda>valid.
        if \<not> valid then
          andThen (emit callback
                     \<lparr>msg_text = ''Unable to process get smart mentions request. Invalid content provided.'',
                      msg_action = None,
                      msg_content = Some [(''error'', JStr ''Invalid get smart mentions content'')]\<rparr>) (\<lambda>_.
          ret False)
        else
         (let limit = dflt (js_get content ''limit'') (JNum 100);
             offset = dflt (js_get content ''offset'') (JNum 0) in
          andThen (call_axios runtime
                     \<lparr>url = toString baseUrl @ ''/v1/mentions'', headers = headers,
                      params = Some [(''limit'', limit), (''offset'', offset)]\<rparr>) (\<lambda>responseData.
          let prompt = ''Extracted information and summarize the smart mentions from the Elfa AI API.:'' @ NL
                       @ ''            '' @ JSON_stringify2 responseData in
          andThen (call (EvGenerateText prompt) (generateText runtime prompt)) (\<lambda>callbackMessage.
          andThen (emit callback
                     \<lparr>msg_text = ''Retrieves tweets by smart accounts with smart engagement from the Elfa AI API:'' @ NL
                        @ callbackMessage @ NL
                        @ ''------------------------------------------------'' @ NL
                        @ ''Raw Response: '' @ NL
                        @ JSON_stringify2 responseData,
                      msg_action = Some ''ELFA_GET_SMART_MENTIONS'',
                      msg_content = None\<rparr>) (\<lambda>_.
          ret True))))))))))
       (\<lambda>error.
        andThen (emit callback
                   \<lparr>msg_text = ''Failed to get smart mentions from Elfa AI API.'' @ NL
                      @ ''Error:'' @ NL
                      @ message error,
                    msg_action = Some ''ELFA_GET_SMART_MENTIONS'',
                    msg_content = None\<rparr>) (\<lambda>_.
        ret False))"

definition elfaGetSmartMentions :: action where
  "elfaGetSmartMentions =
     \<lparr>name = ''ELFA_GET_SMART_MENTIONS'',
      similes = [''get mentions'', ''smart mentions'', ''fetch mentions''],
      description = ''Retrieves tweets by smart accounts with smart engagement from the Elfa AI API.'',
      validate = elfaGetSmartMentions_validate,
      handler = elfaGetSmartMentions_handler\<rparr>"

subsection \<open>src/actions/getTopMentions.ts\<close>

definition elfaGetTopMentionsAction_validate :: "world \<Rightarrow> error + bool" where
  "elfaGetTopMentionsAction_validate runtime =
     (case validateElfaAiConfig runtime of Inl e \<Rightarrow> Inl e | Inr config \<Rightarrow> Inr True)"

definition elfaGetTopMentionsAction_handler :: "world \<Rightarrow> memory \<Rightarrow> state option \<Rightarrow> bool \<Rightarrow> bool eff" where
  "elfaGetTopMentionsAction_handler runtime msg st callback =
     try_catch
       (andThen (read_setting runtime ''ELFA_AI_BASE_URL'') (\<lambda>baseUrl.
        andThen (read_setting runtime ''ELFA_AI_API_KEY'') (\<lambda>apiKey.
        let headers = [(''Content-Type'', JStr ''application/json''), (''x-elfa-api-key'', apiKey)] in
        andThen (case st of
                   None \<Rightarrow> call (EvComposeState msg) (composeState runtime msg)
                 | Some s \<Rightarrow> call (EvUpdateRecentMessageState s) (updateRecentMessageState runtime s))
          (\<lambda>updatedState.
        let context = composeContext runtime updatedState getTopMentionsTemplate in
        andThen (call (EvGenerateObject context ''GetTopMentionsSchema'')
                   (generateObject runtime context ''GetTopMentionsSchema'')) (\<lambda>content.
        andThen (lift (isGetTopMentionsContent content)) (\<lambda>valid.
        if \<not> valid then
          andThen (emit callback
                     \<lparr>msg_text = ''Unable to process get top mentions for the requested ticker. Invalid content provided.'',
                      msg_action = None,
                      msg_content = Some [(''error'', JStr ''Invalid get top mentions content'')]\<rparr>) (\<lambda>_.
          ret False)
        else
         (let ticker = js_get content ''ticker'';
             timeWindow = dflt (js_get content ''timeWindow'') (JStr ''1h'');
             page = dflt (js_get content ''page'') (JNum 1);
             pageSize = dflt (js_get content ''pageSize'') (JNum 10);
             includeAccountDetails = dflt (js_get content ''includeAccountDetails'') (JBool False) in
          andThen (call_axios runtime
                     \<lparr>url = toString baseUrl @ ''/v1/top-mentions'', headers = headers,
                      params = Some [(''ticker'', ticker), (''timeWindow'', timeWindow), (''page'', page), (''pageSize'', pageSize), (''includeAccountDetails'', includeAccountDetails)]\<rparr>) (\<lambda>responseData.
          let prompt = ''Extracted information and summarize the top tweets for a specific ticker from the Elfa AI API. Make sure you mention details of the tweet such as date, post metrics and the tweet content:'' @ NL
                       @ ''            '' @ JSON_stringify2 responseData in
          andThen (call (EvGenerateText prompt) (generateText runtime prompt)) (\<lambda>callbackMessage.
          andThen (emit callback
                     \<lparr>msg_text = ''Retrieved top tweets for the '' @ toString ticker @ '':'' @ NL
                        @ callbackMessage @ NL
                        @ ''------------------------------------------------'' @ NL
                        @ ''Raw Response: '' @ NL
                        @ JSON_stringify2 responseData,
                      msg_action = Some ''ELFA_GET_TOP_MENTIONS'',
                      msg_content = None\<rparr>) (\<lambda>_.
          ret True))))))))))
       (\<lambda>error.
        andThen (emit callback
                   \<lparr>msg_text = ''Failed to get top mentions for provided ticker from Elfa AI API.'' @ NL
                      @ ''Error:'' @ NL
                      @ message error,
                    msg_action = Some ''ELFA_GET_TOP_MENTIONS'',
                    msg_content = None\<rparr>) (\<lambda>_.
        ret False))"

definition elfaGetTopMentionsAction :: action where
  "elfaGetTopMentionsAction =
     \<lparr>name = ''ELFA_GET_TOP_MENTIONS'',
      similes = [''top mentions'', ''get top mentions'', ''fetch top mentions'', ''get top tweets''],
      description = ''Retrieves top tweets for a given ticker symbol from the Elfa AI API.'',
      validate = elfaGetTopMentionsAction_validate,
      handler = elfaGetTopMentionsAction_handler\<rparr>"

subsection \<open>src/actions/getSearchMentionsByKeywords.ts\<close>

definition elfaGetSearchMentionsByKeywordsAction_validate :: "world \<Rightarrow> error + bool" where
  "elfaGetSearchMentionsByKeywordsAction_validate runtime =
     (case validateElfaAiConfig runtime of Inl e \<Rightarrow> Inl e | Inr config \<Rightarrow> Inr True)"

definition elfaGetSearchMentionsByKeywordsAction_handler :: "world \<Rightarrow> memory \<Rightarrow> state option \<Rightarrow> bool \<Rightarrow> bool eff" where
  "elfaGetSearchMentionsByKeywordsAction_handler runtime msg st callback =
     try_catch
       (andThen (read_setting runtime ''ELFA_AI_BASE_URL'') (\<lambda>baseUrl.
        andThen (read_setting runtime ''ELFA_AI_API_KEY'') (\<lambda>apiKey.
        let headers = [(''Content-Type'', JStr ''application/json''), (''x-elfa-api-key'', apiKey)] in
        andThen (case st of
                   None \<Rightarrow> call (EvComposeState msg) (composeState runtime msg)
                 | Some s \<Rightarrow> call (EvUpdateRecentMessageState s) (updateRecentMessageState runtime s))
          (\<lambda>updatedState.
        let context = composeContext runtime updatedState getSearchMentionsByKeywordsTemplate in
        andThen (call (EvGenerateObject context ''getSearchMentionsByKeywordsSchema'')
                   (generateObject runtime context ''getSearchMentionsByKeywordsSchema'')) (\<lambda>content.
        andThen (lift (isGetSearchMentionsByKeywordsContent content)) (\<lambda>valid.
        if \<not> valid then
          andThen (emit callback
                     \<lparr>msg_text = ''Unable to search for tweets by the keywords provided. Invalid content provided.'',
                      msg_action = None,
                      msg_content = Some [(''error'', JStr ''Invalid get search mentions by keywords content'')]\<rparr>) (\<lambda>_.
          ret False)
        else
         (let keywords = js_get content ''keywords'';
             from = js_get content ''from'';
             to = js_get content ''to'';
             limit = dflt (js_get content ''limit'') (JNum 20) in
          andThen (call_axios runtime
                     \<lparr>url = toString baseUrl @ ''/v1/mentions/search'', headers = headers,
                      params = Some [(''keywords'', keywords), (''from'', from), (''to'', to), (''limit'', limit)]\<rparr>) (\<lambda>responseData.
          let prompt = ''Extracted information and summarize the tweets for keywords from the Elfa AI API. Make sure you mention details of the tweet such as date, post metrics and the tweet content:'' @ NL
                       @ ''            '' @ JSON_stringify2 responseData in
          andThen (call (EvGenerateText prompt) (generateText runtime prompt)) (\<lambda>callbackMessage.
          andThen (emit callback
                     \<lparr>msg_text = ''Retrieved tweets for the '' @ toString keywords @ '' keywords from the Elfa AI API:'' @ NL
                        @ callbackMessage @ NL
                        @ ''------------------------------------------------'' @ NL
                        @ ''Raw Response: '' @ NL
                        @ JSON_stringify2 responseData,
                      msg_action = Some ''ELFA_SEARCH_MENTIONS_BY_KEYWORDS'',
                      msg_content = None\<rparr>) (\<lambda>_.
          ret True))))))))))
       (\<lambda>error.
        andThen (emit callback
                   \<lparr>msg_text = ''Failed to get tweets for the mentioned keywords from Elfa AI API.'' @ NL
                      @ ''Error:'' @ NL
                      @ message error,
                    msg_action = Some ''ELFA_SEARCH_MENTIONS_BY_KEYWORDS'',
                    msg_content = None\<rparr>) (\<lambda>_.
        ret False))"

definition elfaGetSearchMentionsByKeywordsAction :: action where
  "elfaGetSearchMentionsByKeywordsAction =
     \<lparr>name = ''ELFA_SEARCH_MENTIONS_BY_KEYWORDS'',
      similes = [''search mentions'', ''find mentions by keywords'', ''tweets by keywords''],
      description = ''Searches for tweets by keywords within a specified date range using the Elfa AI API.'',
      validate = elfaGetSearchMentionsByKeywordsAction_validate,
      handler = elfaGetSearchMentionsByKeywordsAction_handler\<rparr>"

subsection \<open>src/actions/getTrendingTokens.ts\<close>

definition elfaGetTrendingTokens_validate :: "world \<Rightarrow> error + bool" where
  "elfaGetTrendingTokens_validate runtime =
     (case validateElfaAiConfig runtime of Inl e \<Rightarrow> Inl e | Inr config \<Rightarrow> Inr True)"

definition elfaGetTrendingTokens_handler :: "world \<Rightarrow> memory \<Rightarrow> state option \<Rightarrow> bool \<Rightarrow> bool eff" where
  "elfaGetTrendingTokens_handler runtime msg st callback =
     try_catch
       (andThen (read_setting runtime ''ELFA_AI_BASE_URL'') (\<lambda>baseUrl.
        andThen (read_setting runtime ''ELFA_AI_API_KEY'') (\<lambda>apiKey.
        let headers = [(''Content-Type'', JStr ''application/json''), (''x-elfa-api-key'', apiKey)] in
        andThen (case st of
                   None \<Rightarrow> call (EvComposeState msg) (composeState runtime msg)
                 | Some s \<Rightarrow> call (EvUpdateRecentMessageState s) (updateRecentMessageState runtime s))
          (\<lambda>updatedState.
        let context = composeContext runtime updatedState getTrendingTokensTemplate in
        andThen (call (EvGenerateObject context ''getTrendingTokensSchema'')
                   (generateObject runtime context ''getTrendingTokensSchema'')) (\<lambda>content.
        andThen (lift (isGetTrendingTokensContent content)) (\<lambda>valid.
        if \<not> valid then
          andThen (emit callback
                     \<lparr>msg_text = ''Unable to process get trending tokens request. Invalid content provided.'',
                      msg_action = None,
                      msg_content = Some [(''error'', JStr ''Invalid get trending tokens content'')]\<rparr>) (\<lambda>_.
          ret False)
        else
         (let timeWindow = dflt (js_get content ''timeWindow'') (JStr ''24h'');
             page = dflt (js_get content ''page'') (JNum 1);
             pageSize = dflt (js_get content ''pageSize'') (JNum 50);
             minMentions = dflt (js_get content ''minMentions'') (JNum 5) in
          andThen (call_axios runtime
                     \<lparr>url = toString baseUrl @ ''/v1/trending-tokens'', headers = headers,
                      params = Some [(''timeWindow'', timeWindow), (''page'', page), (''pageSize'', pageSize), (''minMentions'', minMentions)]\<rparr>) (\<lambda>responseData.
          let prompt = ''Extracted information and summarize the trending tokens by twitter mentions from the Elfa AI API.:'' @ NL
                       @ ''            '' @ JSON_stringify2 responseData in
          andThen (call (EvGenerateText prompt) (generateText runtime prompt)) (\<lambda>callbackMessage.
          andThen (emit callback
                     \<lparr>msg_text = ''Retrieves trending tokens by twitter mentions from the Elfa AI API:'' @ NL
                        @ callbackMessage @ NL
                        @ ''------------------------------------------------'' @ NL
                        @ ''Raw Response: '' @ NL
                        @ JSON_stringify2 responseData,
                      msg_action = Some ''ELFA_GET_TRENDING_TOKENS'',
                      msg_content = None\<rparr>) (\<lambda>_.
          ret True))))))))))
       (\<lambda>error.
        andThen (emit callback
                   \<lparr>msg_text = ''Failed to get trending tokens from Elfa AI API.'' @ NL
                      @ ''Error:'' @ NL
                      @ message error,
                    msg_action = Some ''ELFA_GET_TRENDING_TOKENS'',
                    msg_content = None\<rparr>) (\<lambda>_.
        ret False))"

definition elfaGetTrendingTokens :: action where
  "elfaGetTrendingTokens =
     \<lparr>name = ''ELFA_GET_TRENDING_TOKENS'',
      similes = [''trending tokens'', ''get trending tokens'', ''fetch trending tokens''],
      description = ''Retrieves trending tokens based on mentions from the Elfa AI API.'',
      validate = elfaGetTrendingTokens_validate,
      handler = elfaGetTrendingTokens_handler\<rparr>"

subsection \<open>src/actions/getTwitterAccountStats.ts\<close>

definition elfaGetTwitterAccountStatsAction_validate :: "world \<Rightarrow> error + bool" where
  "elfaGetTwitterAccountStatsAction_validate runtime =
     (case validateElfaAiConfig runtime of Inl e \<Rightarrow> Inl e | Inr config \<Rightarrow> Inr True)"

definition elfaGetTwitterAccountStatsAction_handler :: "world \<Rightarrow> memory \<Rightarrow> state option \<Rightarrow> bool \<Rightarrow> bool eff" where
  "elfaGetTwitterAccountStatsAction_handler runtime msg st callback =
     try_catch
       (andThen (read_setting runtime ''ELFA_AI_BASE_URL'') (\<lambda>baseUrl.
        andThen (read_setting runtime ''ELFA_AI_API_KEY'') (\<lambda>apiKey.
        let headers = [(''Content-Type'', JStr ''application/json''), (''x-elfa-api-key'', apiKey)] in
        andThen (case st of
                   None \<Rightarrow> call (EvComposeState msg) (composeState runtime msg)
                 | Some s \<Rightarrow> call (EvUpdateRecentMessageState s) (updateRecentMessageState runtime s))
          (\<lambda>updatedState.
        let context = composeContext runtime updatedState getTwitterAccountStatsTemplate in
        andThen (call (EvGenerateObject context ''getTwitterAccountStatsSchema'')
                   (generateObject runtime context ''getTwitterAccountStatsSchema'')) (\<lambda>content.
        andThen (lift (isGetTwitterAccountStatsContent content)) (\<lambda>valid.
        if \<not> valid then
          andThen (emit callback
                     \<lparr>msg_text = ''Unable to retieve twitter account stats for the provided username. Invalid content provided.'',
                      msg_action = None,
                      msg_content = Some [(''error'', JStr ''Invalid get twitter account stats content'')]\<rparr>) (\<lambda>_.
          ret False)
        else
         (let username = js_get content ''username'' in
          andThen (call_axios runtime
                     \<lparr>url = toString baseUrl @ ''/v1/account/smart-stats'', headers = headers,
                      params = Some [(''username'', username)]\<rparr>) (\<lambda>responseData.
          let prompt = ''Extracted information and summarize the smart account stats for provided username '' @ toString username @ '':'' @ NL
                       @ ''            '' @ JSON_stringify2 responseData in
          andThen (call (EvGenerateText prompt) (generateText runtime prompt)) (\<lambda>callbackMessage.
          andThen (emit callback
                     \<lparr>msg_text = ''Retrieved twitter account data for '' @ toString username @ '' from the Elfa AI API:'' @ NL
                        @ callbackMessage @ NL
                        @ ''------------------------------------------------'' @ NL
                        @ ''Raw Response: '' @ NL
                        @ JSON_stringify2 responseData,
                      msg_action = Some ''ELFA_TWITTER_ACCOUNT_STATS'',
                      msg_content = None\<rparr>) (\<lambda>_.
          ret True))))))))))
       (\<lambda>error.
        andThen (emit callback
                   \<lparr>msg_text = ''Failed to get twitter account data for the mentioned username from Elfa AI API.'' @ NL
                      @ ''Error:'' @ NL
                      @ message error,
                    msg_action = Some ''ELFA_TWITTER_ACCOUNT_STATS'',
                    msg_content = None\<rparr>) (\<lambda>_.
        ret False))"

definition elfaGetTwitterAccountStatsAction :: action where
  "elfaGetTwitterAccountStatsAction =
     \<lparr>name = ''ELFA_TWITTER_ACCOUNT_STATS'',
      similes = [''account smart stats'', ''smart stats'', ''twitter account stats'', ''smart twitter stats''],
      description = ''Retrieves smart stats and social metrics for a specified Twitter account from the Elfa AI API.'',
      validate = elfaGetTwitterAccountStatsAction_validate,
      handler = elfaGetTwitterAccountStatsAction_handler\<rparr>"

subsection \<open>src/index.ts\<close>

definition elfaAiPlugin_actions :: "action list" where
  "elfaAiPlugin_actions =
     [elfaPingAction,
      elfaApiKeyStatusAction,
      elfaGetSmartMentions,
      elfaGetTopMentionsAction,
      elfaGetSearchMentionsByKeywordsAction,
      elfaGetTrendingTokens,
      elfaGetTwitterAccountStatsAction]"

section \<open>Notions used to state the properties\<close>

text \<open>A resolved configuration value the schema accepts: a string that is not empty.\<close>

definition nonempty_string :: "jsval \<Rightarrow> bool" where
  "nonempty_string v = (case v of JStr s \<Rightarrow> s \<noteq> [] | _ \<Rightarrow> False)"

text \<open>
  The value the resolver arrives at for a key: the runtime setting when it is set (truthy),
  otherwise the environment variable.
\<close>

definition resolved :: "world \<Rightarrow> string \<Rightarrow> jsval" where
  "resolved w k = (if truthy (getSetting w k) then getSetting w k else env_value w k)"

text \<open>The line of the error message for a field, when the field is not a non-empty string.\<close>

definition config_line :: "string \<Rightarrow> string \<Rightarrow> jsval \<Rightarrow> string list" where
  "config_line key msg v =
     (if nonempty_string v then []
      else [key @ '': '' @
              (if v = JUndefined then ''Required''
               else if v = JStr [] then msg
               else ''Expected string, received '' @ getParsedType v)])"

definition config_error_message :: "world \<Rightarrow> string" where
  "config_error_message w =
     ''Elfa AI configuration validation failed:'' @ NL
     @ intercalate NL
         (config_line ''ELFA_AI_BASE_URL'' ''Base URL is required for interacting with Elfa AI''
            (resolved w ''ELFA_AI_BASE_URL'')
          @ config_line ''ELFA_AI_API_KEY'' ''API key is required for interacting with Elfa AI''
              (resolved w ''ELFA_AI_API_KEY''))"

text \<open>The pipeline step an event belongs to.\<close>

datatype step = ReadConfig | ComposeStep | Extract | Dispatch | Summarize | Emit | Log

fun step_of :: "event \<Rightarrow> step" where
  "step_of (EvGetSetting k) = ReadConfig"
| "step_of (EvComposeState m) = ComposeStep"
| "step_of (EvUpdateRecentMessageState s) = ComposeStep"
| "step_of (EvGenerateObject c n) = Extract"
| "step_of (EvHttpGet r) = Dispatch"
| "step_of (EvGenerateText p) = Summarize"
| "step_of (EvCallback m) = Emit"
| "step_of (EvLogInfo t d) = Log"
| "step_of (EvLogError t e) = Log"


text \<open>The state step of the five extracting handlers, and its result.\<close>

definition state_result :: "world \<Rightarrow> memory \<Rightarrow> state option \<Rightarrow> error + state" where
  "state_result w m st =
     (case st of None \<Rightarrow> composeState w m | Some s \<Rightarrow> updateRecentMessageState w s)"

definition state_event :: "memory \<Rightarrow> state option \<Rightarrow> event" where
  "state_event m st =
     (case st of None \<Rightarrow> EvComposeState m | Some s \<Rightarrow> EvUpdateRecentMessageState s)"

text \<open>The actions without parameters, with their endpoint paths.\<close>

definition plain_actions :: "(action \<times> string) list" where
  "plain_actions =
     [(elfaPingAction, ''/v1/ping''),
      (elfaApiKeyStatusAction, ''/v1/key-status'')]"

text \<open>The query parameters for a content: each value as extracted, the default where it is \<open>undefined\<close>.\<close>

definition query_params :: "(string \<times> jsval option) list \<Rightarrow> jsval \<Rightarrow> (string \<times> jsval) list" where
  "query_params ps content =
     map (\<lambda>(k, d). (k, case d of None \<Rightarrow> js_get content k
                          | Some v \<Rightarrow> (if js_get content k = JUndefined then v else js_get content k))) ps"

text \<open>The headers every request is to carry, for an API key value.\<close>

definition elfa_headers :: "jsval \<Rightarrow> (string \<times> jsval) list" where
  "elfa_headers key = [(''Content-Type'', JStr ''application/json''), (''x-elfa-api-key'', key)]"

text \<open>The part of a success message of an extracting action after its first line.\<close>

definition combined_tail :: "string \<Rightarrow> jsval \<Rightarrow> string" where
  "combined_tail summary body =
     NL @ summary @ NL
     @ ''------------------------------------------------'' @ NL
     @ ''Raw Response: '' @ NL
     @ JSON_stringify2 body"

text \<open>
  What distinguishes the five extracting actions from one another: endpoint path, prompt
  template, schema name, type guard, the query parameters built from a content (parameter
  name, declared default if any), and the texts of the messages.
\<close>

record extraction =
  ex_path :: string
  ex_template :: string
  ex_schema :: string
  ex_guard :: "jsval \<Rightarrow> error + bool"
  ex_params :: "(string \<times> jsval option) list"
  ex_invalid_text :: string
  ex_invalid_error :: string
  ex_prompt_head :: "jsval \<Rightarrow> string"
  ex_success_head :: "jsval \<Rightarrow> string"
  ex_failure_head :: string

definition getSmartMentions_extraction :: extraction where
  "getSmartMentions_extraction =
     \<lparr>ex_path = ''/v1/mentions'', ex_template = getSmartMentionsTemplate,
      ex_schema = ''GetSmartMentionsSchema'', ex_guard = isGetSmartMentionsContent,
      ex_params = [(''limit'', Some (JNum 100)), (''offset'', Some (JNum 0))],
      ex_invalid_text = ''Unable to process get smart mentions request. Invalid content provided.'',
      ex_invalid_error = ''Invalid get smart mentions content'',
      ex_prompt_head = (\<lambda>content. ''Extracted information and summarize the smart mentions from the Elfa AI API.:''),
      ex_success_head = (\<lambda>content. ''Retrieves tweets by smart accounts with smart engagement from the Elfa AI API:''),
      ex_failure_head = ''Failed to get smart mentions from Elfa AI API.''\<rparr>"

definition getTopMentions_extraction :: extraction where
  "getTopMentions_extraction =
     \<lparr>ex_path = ''/v1/top-mentions'', ex_template = getTopMentionsTemplate,
      ex_schema = ''GetTopMentionsSchema'', ex_guard = isGetTopMentionsContent,
      ex_params = [(''ticker'', None), (''timeWindow'', Some (JStr ''1h'')),
      (''page'', Some (JNum 1)), (''pageSize'', Some (JNum 10)),
      (''includeAccountDetails'', Some (JBool False))],
      ex_invalid_text = ''Unable to process get top mentions for the requested ticker. Invalid content provided.'',
      ex_invalid_error = ''Invalid get top mentions content'',
      ex_prompt_head = (\<lambda>content. ''Extracted information and summarize the top tweets for a specific ticker from the Elfa AI API. Make sure you mention details of the tweet such as date, post metrics and the tweet content:''),
      ex_success_head = (\<lambda>content. ''Retrieved top tweets for the '' @ toString (js_get content ''ticker'') @ '':''),
      ex_failure_head = ''Failed to get top mentions for provided ticker from Elfa AI API.''\<rparr>"

definition getSearchMentionsByKeywords_extraction :: extraction where
  "getSearchMentionsByKeywords_extraction =
     \<lparr>ex_path = ''/v1/mentions/search'', ex_template = getSearchMentionsByKeywordsTemplate,
      ex_schema = ''getSearchMentionsByKeywordsSchema'',
      ex_guard = isGetSearchMentionsByKeywordsContent,
      ex_params = [(''keywords'', None), (''from'', None), (''to'', None),
      (''limit'', Some (JNum 20))],
      ex_invalid_text = ''Unable to search for tweets by the keywords provided. Invalid content provided.'',
      ex_invalid_error = ''Invalid get search mentions by keywords content'',
      ex_prompt_head = (\<lambda>content. ''Extracted information and summarize the tweets for keywords from the Elfa AI API. Make sure you mention details of the tweet such as date, post metrics and the tweet content:''),
      ex_success_head = (\<lambda>content. ''Retrieved tweets for the '' @ toString (js_get content ''keywords'') @ '' keywords from the Elfa AI API:''),
      ex_failure_head = ''Failed to get tweets for the mentioned keywords from Elfa AI API.''\<rparr>"

definition getTrendingTokens_extraction :: extraction where
  "getTrendingTokens_extraction =
     \<lparr>ex_path = ''/v1/trending-tokens'', ex_template = getTrendingTokensTemplate,
      ex_schema = ''getTrendingTokensSchema'', ex_guard = isGetTrendingTokensContent,
      ex_params = [(''timeWindow'', Some (JStr ''24h'')), (''page'', Some (JNum 1)),
      (''pageSize'', Some (JNum 50)), (''minMentions'', Some (JNum 5))],
      ex_invalid_text = ''Unable to process get trending tokens request. Invalid content provided.'',
      ex_invalid_error = ''Invalid get trending tokens content'',
      ex_prompt_head = (\<lambda>content. ''Extracted information and summarize the trending tokens by twitter mentions from the Elfa AI API.:''),
      ex_success_head = (\<lambda>content. ''Retrieves trending tokens by twitter mentions from the Elfa AI API:''),
      ex_failure_head = ''Failed to get trending tokens from Elfa AI API.''\<rparr>"

definition getTwitterAccountStats_extraction :: extraction where
  "getTwitterAccountStats_extraction =
     \<lparr>ex_path = ''/v1/account/smart-stats'', ex_template = getTwitterAccountStatsTemplate,
      ex_schema = ''getTwitterAccountStatsSchema'', ex_guard = isGetTwitterAccountStatsContent,
      ex_params = [(''username'', None)],
      ex_invalid_text = ''Unable to retieve twitter account stats for the provided username. Invalid content provided.'',
      ex_invalid_error = ''Invalid get twitter account stats content'',
      ex_prompt_head = (\<lambda>content. ''Extracted information and summarize the smart account stats for provided username '' @ toString (js_get content ''username'') @ '':''),
      ex_success_head = (\<lambda>content. ''Retrieved twitter account data for '' @ toString (js_get content ''username'') @ '' from the Elfa AI API:''),
      ex_failure_head = ''Failed to get twitter account data for the mentioned username from Elfa AI API.''\<rparr>"

definition extracting_actions :: "(action \<times> extraction) list" where
  "extracting_actions =
     [(elfaGetSmartMentions, getSmartMentions_extraction),
      (elfaGetTopMentionsAction, getTopMentions_extraction),
      (elfaGetSearchMentionsByKeywordsAction, getSearchMentionsByKeywords_extraction),
      (elfaGetTrendingTokens, getTrendingTokens_extraction),
      (elfaGetTwitterAccountStatsAction, getTwitterAccountStats_extraction)]"

text \<open>
  The one control flow the five extracting handlers share, over such a description.
  That each handler above is this flow at its description is proved below
  (\<open>handler_pipeline\<close>); the properties of the five are then proved once.
\<close>

definition pipeline :: "string \<Rightarrow> extraction \<Rightarrow> world \<Rightarrow> memory \<Rightarrow> state option \<Rightarrow> bool \<Rightarrow> bool eff" where
  "pipeline act x runtime msg st callback =
     try_catch
       (andThen (read_setting runtime ''ELFA_AI_BASE_URL'') (\<lambda>baseUrl.
        andThen (read_setting runtime ''ELFA_AI_API_KEY'') (\<lambda>apiKey.
        andThen (case st of
                   None \<Rightarrow> call (EvComposeState msg) (composeState runtime msg)
                 | Some s \<Rightarrow> call (EvUpdateRecentMessageState s) (updateRecentMessageState runtime s))
          (\<lambda>updatedState.
        andThen (call (EvGenerateObject (composeContext runtime updatedState (ex_template x)) (ex_schema x))
                   (generateObject runtime (composeContext runtime updatedState (ex_template x)) (ex_schema x)))
          (\<lambda>content.
        andThen (lift (ex_guard x content)) (\<lambda>valid.
        if \<not> valid then
          andThen (emit callback
                     \<lparr>msg_text = ex_invalid_text x,
                      msg_action = None,
                      msg_content = Some [(''error'', JStr (ex_invalid_error x))]\<rparr>) (\<lambda>_.
          ret False)
        else
          andThen (call_axios runtime
                     \<lparr>url = toString baseUrl @ ex_path x, headers = elfa_headers apiKey,
                      params = Some (query_params (ex_params x) content)\<rparr>) (\<lambda>responseData.
          andThen (call (EvGenerateText (ex_prompt_head x content @ NL @ ''            '' @ JSON_stringify2 responseData))
                     (generateText runtime (ex_prompt_head x content @ NL @ ''            '' @ JSON_stringify2 responseData)))
            (\<lambda>callbackMessage.
          andThen (emit callback
                     \<lparr>msg_text = ex_success_head x content @ combined_tail callbackMessage responseData,
                      msg_action = Some act,
                      msg_content = None\<rparr>) (\<lambda>_.
          ret True)))))))))
       (\<lambda>error.
        andThen (emit callback
                   \<lparr>msg_text = ex_failure_head x @ NL @ ''Error:'' @ NL @ message error,
                    msg_action = Some act,
                    msg_content = None\<rparr>) (\<lambda>_.
        ret False))"

text \<open>Every action with its endpoint path.\<close>

definition action_paths :: "(action \<times> string) list" where
  "action_paths = plain_actions @ map (\<lambda>(a, x). (a, ex_path x)) extracting_actions"

subsection \<open>Concrete worlds\<close>

text \<open>Both settings present; every outside call succeeds; the API answers \<open>{"status":"ok"}\<close>.\<close>

definition world_ok :: world where
  "world_ok =
     \<lparr>getSetting = (\<lambda>k. if k = ''ELFA_AI_BASE_URL'' then JStr ''https://api.elfa.ai''
                         else if k = ''ELFA_AI_API_KEY'' then JStr ''test-key'' else JNull),
      process_env = (\<lambda>k. None),
      composeState = (\<lambda>m. Inr m),
      updateRecentMessageState = (\<lambda>s. Inr s),
      composeContext = (\<lambda>s t. s),
      generateObject = (\<lambda>c n. Inr (JObj [(''ticker'', JStr ''SOL'')])),
      generateText = (\<lambda>p. Inr ''SUMMARY''),
      axios_get = (\<lambda>r. Inr (JObj [(''status'', JStr ''ok'')]))\<rparr>"

text \<open>Nothing configured anywhere.\<close>

definition world_unset :: world where
  "world_unset = world_ok\<lparr>getSetting := (\<lambda>k. JNull)\<rparr>"

text \<open>The settings lookup knows neither key (it answers \<open>null\<close>); both environment variables are set.\<close>

definition world_env_null :: world where
  "world_env_null =
     world_ok\<lparr>getSetting := (\<lambda>k. JNull),
              process_env := (\<lambda>k. if k = ''ELFA_AI_BASE_URL'' then Some ''https://api.elfa.ai''
                                  else if k = ''ELFA_AI_API_KEY'' then Some ''test-key'' else None)\<rparr>"


text \<open>The extraction yields an empty object: every parameter omitted.\<close>

definition world_empty_content :: world where
  "world_empty_content = world_ok\<lparr>generateObject := (\<lambda>c n. Inr (JObj []))\<rparr>"

text \<open>The extraction yields a time window and a page that is not a number.\<close>

definition world_bad_page :: world where
  "world_bad_page =
     world_ok\<lparr>generateObject :=
                (\<lambda>c n. Inr (JObj [(''timeWindow'', JStr ''24h''), (''page'', JStr ''abc'')]))\<rparr>"

text \<open>The extraction yields \<open>from\<close> and \<open>to\<close> but no \<open>keywords\<close>.\<close>

definition world_no_keywords :: world where
  "world_no_keywords =
     world_ok\<lparr>generateObject :=
                (\<lambda>c n. Inr (JObj [(''from'', JNum 1738675001), (''to'', JNum 1738775001)]))\<rparr>"


section \<open>Properties\<close>

lemmas eff_defs = ret_def lift_def call_def andThen_def try_catch_def read_setting_def call_axios_def emit_def

lemma intercalate_simps:
  "intercalate sep [] = []"
  "intercalate sep [x] = x"
  "intercalate sep (x # y # ys) = x @ sep @ intercalate sep (y # ys)"
  by (simp_all add: intercalate_def)

lemma z_string_min_1:
  "z_string_min 1 msg [key] v =
     (if nonempty_string v then []
      else [\<lparr>path = [key],
             issue_message = (if v = JUndefined then ''Required''
                              else if v = JStr [] then msg
                              else ''Expected string, received '' @ getParsedType v)\<rparr>])"
  by (cases v) (auto simp: z_string_min_def nonempty_string_def)

lemma nonempty_string_toString: "nonempty_string v \<Longrightarrow> JStr (toString v) = v"
  by (cases v) (auto simp: nonempty_string_def)

lemma validateElfaAiConfig_cases:
  "validateElfaAiConfig w =
     (if nonempty_string (resolved w ''ELFA_AI_BASE_URL'') \<and> nonempty_string (resolved w ''ELFA_AI_API_KEY'')
      then Inr \<lparr>ELFA_AI_BASE_URL = toString (resolved w ''ELFA_AI_BASE_URL''),
                ELFA_AI_API_KEY = toString (resolved w ''ELFA_AI_API_KEY'')\<rparr>
      else Inl (Error (config_error_message w)))"
proof -
  let ?b = "resolved w ''ELFA_AI_BASE_URL''" and ?a = "resolved w ''ELFA_AI_API_KEY''"
  have r: "js_or (getSetting w k) (env_value w k) = resolved w k" for k
    by (simp add: js_or_def resolved_def)
  have e: "z_string_min 1 msg [key] v = [] \<longleftrightarrow> nonempty_string v" for msg key v
    by (simp add: z_string_min_1 del: One_nat_def)
  show ?thesis
    unfolding validateElfaAiConfig_def elfaAiEnvSchema_parse_def config_error_message_def
    by (simp add: r e Let_def z_string_min_1 config_line_def intercalate_simps del: One_nat_def)
qed

lemma sublist_concat_map: "x \<in> set ys \<Longrightarrow> sublist x (concat (map (\<lambda>z. sep @ z) ys))"
proof (induction ys)
  case Nil
  then show ?case by simp
next
  case (Cons y ys)
  show ?case
  proof (cases "x = y")
    case True
    have "sublist y (sep @ y @ concat (map (\<lambda>z. sep @ z) ys))"
      by (rule sublist_appendI)
    with True show ?thesis by simp
  next
    case False
    with Cons have "sublist x (concat (map (\<lambda>z. sep @ z) ys))" by simp
    then have "sublist x ((sep @ y) @ concat (map (\<lambda>z. sep @ z) ys))"
      by (meson sublist_append_leftI sublist_order.order.trans)
    then show ?thesis by simp
  qed
qed

lemma sublist_intercalate: "x \<in> set xs \<Longrightarrow> sublist x (intercalate sep xs)"
proof (cases xs)
  case Nil
  assume "x \<in> set xs"
  with Nil show ?thesis by simp
next
  case (Cons y ys)
  assume x: "x \<in> set xs"
  show ?thesis
  proof (cases "x = y")
    case True
    with Cons show ?thesis by (simp add: intercalate_def)
  next
    case False
    with x Cons have "sublist x (concat (map (\<lambda>z. sep @ z) ys))"
      by (simp add: sublist_concat_map)
    then have "sublist x (y @ concat (map (\<lambda>z. sep @ z) ys))"
      by (meson sublist_append_leftI sublist_order.order.trans)
    with Cons show ?thesis by (simp add: intercalate_def)
  qed
qed

lemma config_line_names_field:
  assumes "\<not> nonempty_string v" and "set (config_line key msg v) \<subseteq> set ls"
  shows "sublist (key @ '': '') (hdr @ intercalate NL ls)"
proof -
  obtain r where "config_line key msg v = [(key @ '': '') @ r]"
    using assms(1) by (simp add: config_line_def)
  with assms(2) have "(key @ '': '') @ r \<in> set ls" by simp
  then have "sublist ((key @ '': '') @ r) (intercalate NL ls)"
    by (rule sublist_intercalate)
  moreover have "sublist (key @ '': '') ((key @ '': '') @ r)"
    by (rule sublist_append_rightI)
  ultimately have "sublist (key @ '': '') (intercalate NL ls)"
    by (meson sublist_order.order.trans)
  then show ?thesis
    by (meson sublist_append_leftI sublist_order.order.trans)
qed

lemma config_error_message_names_fields:
  "\<not> nonempty_string (resolved w ''ELFA_AI_BASE_URL'') \<Longrightarrow>
     sublist (''ELFA_AI_BASE_URL'' @ '': '') (config_error_message w)"
  "\<not> nonempty_string (resolved w ''ELFA_AI_API_KEY'') \<Longrightarrow>
     sublist (''ELFA_AI_API_KEY'' @ '': '') (config_error_message w)"
  unfolding config_error_message_def append_assoc [symmetric]
  by (rule config_line_names_field
        [where msg = "''Base URL is required for interacting with Elfa AI''"]; auto)
     (rule config_line_names_field
        [where msg = "''API key is required for interacting with Elfa AI''"]; auto)

text \<open>
Claim C6. The configuration resolver takes, for each field, the runtime setting when it
  is set and otherwise the environment variable (\<open>resolved\<close>). When both resolved fields
  are non-empty strings it returns them; otherwise it fails with an error whose message
  has a line for every missing or empty field, so each such field's name occurs in it.
\<close>

theorem validateElfaAiConfig_resolves:
  "(nonempty_string (resolved w ''ELFA_AI_BASE_URL'') \<and> nonempty_string (resolved w ''ELFA_AI_API_KEY'') \<longrightarrow>
      validateElfaAiConfig w =
        Inr \<lparr>ELFA_AI_BASE_URL = toString (resolved w ''ELFA_AI_BASE_URL''),
             ELFA_AI_API_KEY = toString (resolved w ''ELFA_AI_API_KEY'')\<rparr>
      \<and> JStr (toString (resolved w ''ELFA_AI_BASE_URL'')) = resolved w ''ELFA_AI_BASE_URL''
      \<and> JStr (toString (resolved w ''ELFA_AI_API_KEY'')) = resolved w ''ELFA_AI_API_KEY'')
   \<and> (\<not> (nonempty_string (resolved w ''ELFA_AI_BASE_URL'') \<and> nonempty_string (resolved w ''ELFA_AI_API_KEY'')) \<longrightarrow>
      validateElfaAiConfig w = Inl (Error (config_error_message w))
      \<and> (\<not> nonempty_string (resolved w ''ELFA_AI_BASE_URL'') \<longrightarrow>
            sublist (''ELFA_AI_BASE_URL'' @ '': '') (config_error_message w))
      \<and> (\<not> nonempty_string (resolved w ''ELFA_AI_API_KEY'') \<longrightarrow>
            sublist (''ELFA_AI_API_KEY'' @ '': '') (config_error_message w)))"
proof (intro conjI impI)
  assume ok: "nonempty_string (resolved w ''ELFA_AI_BASE_URL'') \<and> nonempty_string (resolved w ''ELFA_AI_API_KEY'')"
  then show "validateElfaAiConfig w =
        Inr \<lparr>ELFA_AI_BASE_URL = toString (resolved w ''ELFA_AI_BASE_URL''),
             ELFA_AI_API_KEY = toString (resolved w ''ELFA_AI_API_KEY'')\<rparr>"
    by (simp add: validateElfaAiConfig_cases)
  from ok show "JStr (toString (resolved w ''ELFA_AI_BASE_URL'')) = resolved w ''ELFA_AI_BASE_URL''"
    by (simp add: nonempty_string_toString)
  from ok show "JStr (toString (resolved w ''ELFA_AI_API_KEY'')) = resolved w ''ELFA_AI_API_KEY''"
    by (simp add: nonempty_string_toString)
next
  assume "\<not> (nonempty_string (resolved w ''ELFA_AI_BASE_URL'') \<and> nonempty_string (resolved w ''ELFA_AI_API_KEY''))"
  then show "validateElfaAiConfig w = Inl (Error (config_error_message w))"
    by (simp add: validateElfaAiConfig_cases)
next
  assume "\<not> nonempty_string (resolved w ''ELFA_AI_BASE_URL'')"
  then show "sublist (''ELFA_AI_BASE_URL'' @ '': '') (config_error_message w)"
    by (rule config_error_message_names_fields)
next
  assume "\<not> nonempty_string (resolved w ''ELFA_AI_API_KEY'')"
  then show "sublist (''ELFA_AI_API_KEY'' @ '': '') (config_error_message w)"
    by (rule config_error_message_names_fields)
qed

lemma world_unset_message:
  "config_error_message world_unset =
     ''Elfa AI configuration validation failed:'' @ NL
     @ ''ELFA_AI_BASE_URL: Required'' @ NL
     @ ''ELFA_AI_API_KEY: Required''"
  by (simp add: config_error_message_def world_unset_def world_ok_def resolved_def env_value_def
      config_line_def nonempty_string_def intercalate_simps)

lemmas pipeline_unfold = pipeline_def query_params_def dflt_def combined_tail_def elfa_headers_def Let_def

lemma smart_pipeline:
  "handler elfaGetSmartMentions = pipeline (name elfaGetSmartMentions) getSmartMentions_extraction"
  by (simp add: fun_eq_iff elfaGetSmartMentions_def elfaGetSmartMentions_handler_def
      getSmartMentions_extraction_def pipeline_unfold cong: if_cong)

lemma top_pipeline:
  "handler elfaGetTopMentionsAction = pipeline (name elfaGetTopMentionsAction) getTopMentions_extraction"
  by (simp add: fun_eq_iff elfaGetTopMentionsAction_def elfaGetTopMentionsAction_handler_def
      getTopMentions_extraction_def pipeline_unfold cong: if_cong)

lemma search_pipeline:
  "handler elfaGetSearchMentionsByKeywordsAction =
     pipeline (name elfaGetSearchMentionsByKeywordsAction) getSearchMentionsByKeywords_extraction"
  by (simp add: fun_eq_iff elfaGetSearchMentionsByKeywordsAction_def
      elfaGetSearchMentionsByKeywordsAction_handler_def
      getSearchMentionsByKeywords_extraction_def pipeline_unfold cong: if_cong)

lemma trending_pipeline:
  "handler elfaGetTrendingTokens = pipeline (name elfaGetTrendingTokens) getTrendingTokens_extraction"
  by (simp add: fun_eq_iff elfaGetTrendingTokens_def elfaGetTrendingTokens_handler_def
      getTrendingTokens_extraction_def pipeline_unfold cong: if_cong)

lemma stats_pipeline:
  "handler elfaGetTwitterAccountStatsAction =
     pipeline (name elfaGetTwitterAccountStatsAction) getTwitterAccountStats_extraction"
  by (simp add: fun_eq_iff elfaGetTwitterAccountStatsAction_def
      elfaGetTwitterAccountStatsAction_handler_def
      getTwitterAccountStats_extraction_def pipeline_unfold cong: if_cong)

text \<open>
Each extracting handler is the shared flow at its description.
\<close>

lemma handler_pipeline:
  "(a, x) \<in> set extracting_actions \<Longrightarrow> handler a = pipeline (name a) x"
  unfolding extracting_actions_def
  using smart_pipeline top_pipeline search_pipeline trending_pipeline stats_pipeline
  by auto

text \<open>
The shared flow, case by case.
\<close>

lemma pipeline_cases:
  "pipeline act x w m st cb =
     (case state_result w m st of
        Inl e \<Rightarrow>
          ([EvGetSetting ''ELFA_AI_BASE_URL'', EvGetSetting ''ELFA_AI_API_KEY'', state_event m st]
           @ (if cb then [EvCallback \<lparr>msg_text = ex_failure_head x @ NL @ ''Error:'' @ NL @ message e,
                                     msg_action = Some act, msg_content = None\<rparr>] else []),
           Inr False)
      | Inr us \<Rightarrow>
         (case generateObject w (composeContext w us (ex_template x)) (ex_schema x) of
            Inl e \<Rightarrow>
              ([EvGetSetting ''ELFA_AI_BASE_URL'', EvGetSetting ''ELFA_AI_API_KEY'', state_event m st,
                EvGenerateObject (composeContext w us (ex_template x)) (ex_schema x)]
               @ (if cb then [EvCallback \<lparr>msg_text = ex_failure_head x @ NL @ ''Error:'' @ NL @ message e,
                                         msg_action = Some act, msg_content = None\<rparr>] else []),
               Inr False)
          | Inr content \<Rightarrow>
             (case ex_guard x content of
                Inl e \<Rightarrow>
                  ([EvGetSetting ''ELFA_AI_BASE_URL'', EvGetSetting ''ELFA_AI_API_KEY'', state_event m st,
                    EvGenerateObject (composeContext w us (ex_template x)) (ex_schema x)]
                   @ (if cb then [EvCallback \<lparr>msg_text = ex_failure_head x @ NL @ ''Error:'' @ NL @ message e,
                                             msg_action = Some act, msg_content = None\<rparr>] else []),
                   Inr False)
              | Inr valid \<Rightarrow>
                 if \<not> valid then
                  ([EvGetSetting ''ELFA_AI_BASE_URL'', EvGetSetting ''ELFA_AI_API_KEY'', state_event m st,
                    EvGenerateObject (composeContext w us (ex_template x)) (ex_schema x)]
                   @ (if cb then [EvCallback \<lparr>msg_text = ex_invalid_text x, msg_action = None,
                                             msg_content = Some [(''error'', JStr (ex_invalid_error x))]\<rparr>] else []),
                   Inr False)
                 else
                  (case axios_get w \<lparr>url = toString (getSetting w ''ELFA_AI_BASE_URL'') @ ex_path x,
                                     headers = elfa_headers (getSetting w ''ELFA_AI_API_KEY''),
                                     params = Some (query_params (ex_params x) content)\<rparr> of
                     Inl e \<Rightarrow>
                      ([EvGetSetting ''ELFA_AI_BASE_URL'', EvGetSetting ''ELFA_AI_API_KEY'', state_event m st,
                        EvGenerateObject (composeContext w us (ex_template x)) (ex_schema x),
                        EvHttpGet \<lparr>url = toString (getSetting w ''ELFA_AI_BASE_URL'') @ ex_path x,
                                   headers = elfa_headers (getSetting w ''ELFA_AI_API_KEY''),
                                   params = Some (query_params (ex_params x) content)\<rparr>]
                       @ (if cb then [EvCallback \<lparr>msg_text = ex_failure_head x @ NL @ ''Error:'' @ NL @ message e,
                                                 msg_action = Some act, msg_content = None\<rparr>] else []),
                       Inr False)
                   | Inr body \<Rightarrow>
                      (case generateText w (ex_prompt_head x content @ NL @ ''            '' @ JSON_stringify2 body) of
                         Inl e \<Rightarrow>
                          ([EvGetSetting ''ELFA_AI_BASE_URL'', EvGetSetting ''ELFA_AI_API_KEY'', state_event m st,
                            EvGenerateObject (composeContext w us (ex_template x)) (ex_schema x),
                            EvHttpGet \<lparr>url = toString (getSetting w ''ELFA_AI_BASE_URL'') @ ex_path x,
                                       headers = elfa_headers (getSetting w ''ELFA_AI_API_KEY''),
                                       params = Some (query_params (ex_params x) content)\<rparr>,
                            EvGenerateText (ex_prompt_head x content @ NL @ ''            '' @ JSON_stringify2 body)]
                           @ (if cb then [EvCallback \<lparr>msg_text = ex_failure_head x @ NL @ ''Error:'' @ NL @ message e,
                                                     msg_action = Some act, msg_content = None\<rparr>] else []),
                           Inr False)
                       | Inr summary \<Rightarrow>
                          ([EvGetSetting ''ELFA_AI_BASE_URL'', EvGetSetting ''ELFA_AI_API_KEY'', state_event m st,
                            EvGenerateObject (composeContext w us (ex_template x)) (ex_schema x),
                            EvHttpGet \<lparr>url = toString (getSetting w ''ELFA_AI_BASE_URL'') @ ex_path x,
                                       headers = elfa_headers (getSetting w ''ELFA_AI_API_KEY''),
                                       params = Some (query_params (ex_params x) content)\<rparr>,
                            EvGenerateText (ex_prompt_head x content @ NL @ ''            '' @ JSON_stringify2 body)]
                           @ (if cb then [EvCallback \<lparr>msg_text = ex_success_head x content @ combined_tail summary body,
                                                     msg_action = Some act, msg_content = None\<rparr>] else []),
                           Inr True))))))"
  by (simp add: pipeline_def eff_defs state_result_def state_event_def
      split: sum.splits option.splits)

lemma step_of_state_event [simp]: "step_of (state_event m st) = ComposeStep"
  by (cases st) (simp_all add: state_event_def)

lemma ping_cases:
  "handler elfaPingAction w m st cb =
     (case axios_get w \<lparr>url = toString (getSetting w ''ELFA_AI_BASE_URL'') @ ''/v1/ping'',
                        headers = elfa_headers (getSetting w ''ELFA_AI_API_KEY''), params = None\<rparr> of
        Inl e \<Rightarrow>
          ([EvGetSetting ''ELFA_AI_BASE_URL'', EvGetSetting ''ELFA_AI_API_KEY'',
            EvHttpGet \<lparr>url = toString (getSetting w ''ELFA_AI_BASE_URL'') @ ''/v1/ping'',
                       headers = elfa_headers (getSetting w ''ELFA_AI_API_KEY''), params = None\<rparr>,
            EvLogError ''Failed to ping Elfa AI API'' e]
           @ (if cb then [EvCallback \<lparr>msg_text = ''Elfa AI API is down. Please check the API status.''
                                        @ NL @ ''Error:'' @ NL @ message e,
                                     msg_action = Some ''ELFA_PING'', msg_content = None\<rparr>] else []),
           Inr False)
      | Inr body \<Rightarrow>
          ([EvGetSetting ''ELFA_AI_BASE_URL'', EvGetSetting ''ELFA_AI_API_KEY'',
            EvHttpGet \<lparr>url = toString (getSetting w ''ELFA_AI_BASE_URL'') @ ''/v1/ping'',
                       headers = elfa_headers (getSetting w ''ELFA_AI_API_KEY''), params = None\<rparr>]
           @ (if cb then [EvCallback \<lparr>msg_text = ''Elfa AI API is up and running. Response: ''
                                        @ JSON_stringify body,
                                     msg_action = Some ''ELFA_PING'', msg_content = None\<rparr>] else [])
           @ [EvLogInfo ''Elfa AI API is up and running'' body],
           Inr True))"
  by (simp add: elfaPingAction_def elfaPingAction_handler_def eff_defs elfa_headers_def
      split: sum.splits)

lemma key_status_cases:
  "handler elfaApiKeyStatusAction w m st cb =
     (case axios_get w \<lparr>url = toString (getSetting w ''ELFA_AI_BASE_URL'') @ ''/v1/key-status'',
                        headers = elfa_headers (getSetting w ''ELFA_AI_API_KEY''), params = None\<rparr> of
        Inl e \<Rightarrow>
          ([EvGetSetting ''ELFA_AI_BASE_URL'', EvGetSetting ''ELFA_AI_API_KEY'',
            EvHttpGet \<lparr>url = toString (getSetting w ''ELFA_AI_BASE_URL'') @ ''/v1/key-status'',
                       headers = elfa_headers (getSetting w ''ELFA_AI_API_KEY''), params = None\<rparr>,
            EvLogError ''Failed to get api key status from Elfa AI API'' e]
           @ (if cb then [EvCallback \<lparr>msg_text = ''Failed to get api key status from Elfa AI. Please check the your API key.''
                                        @ NL @ ''Error:'' @ NL @ message e,
                                     msg_action = Some ''ELFA_API_KEY_STATUS'', msg_content = None\<rparr>] else []),
           Inr False)
      | Inr body \<Rightarrow>
          ([EvGetSetting ''ELFA_AI_BASE_URL'', EvGetSetting ''ELFA_AI_API_KEY'',
            EvHttpGet \<lparr>url = toString (getSetting w ''ELFA_AI_BASE_URL'') @ ''/v1/key-status'',
                       headers = elfa_headers (getSetting w ''ELFA_AI_API_KEY''), params = None\<rparr>]
           @ (if cb then [EvCallback \<lparr>msg_text = ''Elfa AI API key status. Response: ''
                                        @ JSON_stringify body,
                                     msg_action = Some ''ELFA_API_KEY_STATUS'', msg_content = None\<rparr>] else [])
           @ [EvLogInfo ''Elfa AI API key status'' body],
           Inr True))"
  by (simp add: elfaApiKeyStatusAction_def elfaApiKeyStatusAction_handler_def eff_defs elfa_headers_def
      split: sum.splits)


lemma pipeline_invalid:
  assumes "state_result w m st = Inr us"
    and "generateObject w (composeContext w us (ex_template x)) (ex_schema x) = Inr content"
    and "ex_guard x content = Inr False"
  shows "pipeline act x w m st cb =
           ([EvGetSetting ''ELFA_AI_BASE_URL'', EvGetSetting ''ELFA_AI_API_KEY'', state_event m st,
             EvGenerateObject (composeContext w us (ex_template x)) (ex_schema x)]
            @ (if cb then [EvCallback \<lparr>msg_text = ex_invalid_text x, msg_action = None,
                                      msg_content = Some [(''error'', JStr (ex_invalid_error x))]\<rparr>] else []),
            Inr False)"
  using assms by (simp add: pipeline_cases)



text \<open>
Claim C4. The trending-tokens check returns true for every content whose
  \<open>timeWindow\<close> is a string, whatever \<open>page\<close>, \<open>pageSize\<close> and \<open>minMentions\<close> are.
\<close>

theorem isGetTrendingTokensContent_timeWindow:
  "typeof (js_get content ''timeWindow'') = ''string'' \<Longrightarrow> isGetTrendingTokensContent content = Inr True"
  by (cases content) (auto simp: isGetTrendingTokensContent_def nullish_def)

text \<open>
Claim C4 at a content with a string \<open>timeWindow\<close>, a string \<open>page\<close> and a null \<open>pageSize\<close>.
\<close>

theorem isGetTrendingTokensContent_timeWindow_witness:
  "typeof (js_get (JObj [(''timeWindow'', JStr ''24h''), (''page'', JStr ''abc''), (''pageSize'', JNull)])
             ''timeWindow'') = ''string''
   \<and> isGetTrendingTokensContent
         (JObj [(''timeWindow'', JStr ''24h''), (''page'', JStr ''abc''), (''pageSize'', JNull)]) = Inr True"
  using isGetTrendingTokensContent_timeWindow
          [of "JObj [(''timeWindow'', JStr ''24h''), (''page'', JStr ''abc''), (''pageSize'', JNull)]"]
  by simp

text \<open>
More precisely, the check is exactly the test on \<open>timeWindow\<close>.
\<close>

lemma isGetTrendingTokensContent_iff:
  "\<not> nullish content \<Longrightarrow>
     isGetTrendingTokensContent content = Inr (typeof (js_get content ''timeWindow'') = ''string'')"
  by (simp add: isGetTrendingTokensContent_def strict_eq_def)

lemma validate_cases:
  assumes "a \<in> set elfaAiPlugin_actions"
  shows "validate a w =
     (if nonempty_string (resolved w ''ELFA_AI_BASE_URL'') \<and> nonempty_string (resolved w ''ELFA_AI_API_KEY'')
      then Inr True else Inl (Error (config_error_message w)))"
proof -
  have "validate a w = (case validateElfaAiConfig w of Inl e \<Rightarrow> Inl e | Inr config \<Rightarrow> Inr True)"
    using assms
    by (auto simp: elfaAiPlugin_actions_def
        elfaPingAction_def elfaPingAction_validate_def
        elfaApiKeyStatusAction_def elfaApiKeyStatusAction_validate_def
        elfaGetSmartMentions_def elfaGetSmartMentions_validate_def
        elfaGetTopMentionsAction_def elfaGetTopMentionsAction_validate_def
        elfaGetSearchMentionsByKeywordsAction_def elfaGetSearchMentionsByKeywordsAction_validate_def
        elfaGetTrendingTokens_def elfaGetTrendingTokens_validate_def
        elfaGetTwitterAccountStatsAction_def elfaGetTwitterAccountStatsAction_validate_def)
  then show ?thesis by (simp add: validateElfaAiConfig_cases)
qed

text \<open>
Claim C1, amended. For each of the seven actions \<open>validate\<close> never returns false;
  whenever the resolved base URL or API key is missing or empty it throws an error whose
  message has a line for every such field, not only the first.
\<close>

theorem validate_throws_every_field:
  "\<forall>a \<in> set elfaAiPlugin_actions.
     validate a w \<noteq> Inr False
     \<and> (\<not> nonempty_string (resolved w ''ELFA_AI_BASE_URL'')
          \<or> \<not> nonempty_string (resolved w ''ELFA_AI_API_KEY'') \<longrightarrow>
        validate a w = Inl (Error (config_error_message w))
        \<and> (\<not> nonempty_string (resolved w ''ELFA_AI_BASE_URL'') \<longrightarrow>
              sublist (''ELFA_AI_BASE_URL'' @ '': '') (config_error_message w))
        \<and> (\<not> nonempty_string (resolved w ''ELFA_AI_API_KEY'') \<longrightarrow>
              sublist (''ELFA_AI_API_KEY'' @ '': '') (config_error_message w)))"
proof (intro ballI conjI impI)
  fix a assume a: "a \<in> set elfaAiPlugin_actions"
  show "validate a w \<noteq> Inr False"
    by (simp add: validate_cases [OF a])
  assume "\<not> nonempty_string (resolved w ''ELFA_AI_BASE_URL'')
          \<or> \<not> nonempty_string (resolved w ''ELFA_AI_API_KEY'')"
  then show "validate a w = Inl (Error (config_error_message w))"
    by (auto simp: validate_cases [OF a])
next
  assume "\<not> nonempty_string (resolved w ''ELFA_AI_BASE_URL'')"
  then show "sublist (''ELFA_AI_BASE_URL'' @ '': '') (config_error_message w)"
    by (rule config_error_message_names_fields)
next
  assume "\<not> nonempty_string (resolved w ''ELFA_AI_API_KEY'')"
  then show "sublist (''ELFA_AI_API_KEY'' @ '': '') (config_error_message w)"
    by (rule config_error_message_names_fields)
qed

lemma resolved_world_unset:
  "resolved world_unset ''ELFA_AI_BASE_URL'' = JUndefined"
  "resolved world_unset ''ELFA_AI_API_KEY'' = JUndefined"
  by (simp_all add: resolved_def world_unset_def world_ok_def env_value_def)

text \<open>
Claim C1 as stated says that \<open>validate\<close> returns false when the configuration is
  missing. With nothing configured, the Ping action's \<open>validate\<close> throws instead.
\<close>

theorem validate_throws_counterexample:
  "validate elfaPingAction world_unset
     = Inl (Error (''Elfa AI configuration validation failed:'' @ NL
                   @ ''ELFA_AI_BASE_URL: Required'' @ NL
                   @ ''ELFA_AI_API_KEY: Required''))
   \<and> validate elfaPingAction world_unset \<noteq> Inr False"
  by (simp add: elfaPingAction_def elfaPingAction_validate_def validateElfaAiConfig_cases
      resolved_world_unset nonempty_string_def world_unset_message)

text \<open>
Claim C1, amended, for the Top Mentions action with nothing configured.
\<close>

theorem validate_throws_every_field_witness:
  "elfaGetTopMentionsAction \<in> set elfaAiPlugin_actions
   \<and> \<not> nonempty_string (resolved world_unset ''ELFA_AI_BASE_URL'')
   \<and> \<not> nonempty_string (resolved world_unset ''ELFA_AI_API_KEY'')
   \<and> validate elfaGetTopMentionsAction world_unset = Inl (Error (config_error_message world_unset))
   \<and> sublist (''ELFA_AI_BASE_URL'' @ '': '') (config_error_message world_unset)
   \<and> sublist (''ELFA_AI_API_KEY'' @ '': '') (config_error_message world_unset)"
proof -
  have mem: "elfaGetTopMentionsAction \<in> set elfaAiPlugin_actions"
    by (simp add: elfaAiPlugin_actions_def)
  have b: "\<not> nonempty_string (resolved world_unset ''ELFA_AI_BASE_URL'')"
    and k: "\<not> nonempty_string (resolved world_unset ''ELFA_AI_API_KEY'')"
    by (simp_all add: resolved_world_unset nonempty_string_def)
  from bspec [OF validate_throws_every_field [of world_unset] mem] b k mem
  show ?thesis by blast
qed

lemma resolved_world_env_null:
  "resolved world_env_null ''ELFA_AI_BASE_URL'' = JStr ''https://api.elfa.ai''"
  "resolved world_env_null ''ELFA_AI_API_KEY'' = JStr ''test-key''"
  by (simp_all add: resolved_def world_env_null_def world_ok_def env_value_def)

text \<open>
Claim C6 at two runtimes: one configured through the environment only, one not configured.
\<close>

theorem validateElfaAiConfig_resolves_witness:
  "validateElfaAiConfig world_env_null
     = Inr \<lparr>ELFA_AI_BASE_URL = ''https://api.elfa.ai'', ELFA_AI_API_KEY = ''test-key''\<rparr>
   \<and> validateElfaAiConfig world_unset
       = Inl (Error (''Elfa AI configuration validation failed:'' @ NL
                     @ ''ELFA_AI_BASE_URL: Required'' @ NL
                     @ ''ELFA_AI_API_KEY: Required''))
   \<and> sublist (''ELFA_AI_BASE_URL'' @ '': '') (config_error_message world_unset)
   \<and> sublist (''ELFA_AI_API_KEY'' @ '': '') (config_error_message world_unset)"
proof -
  have ok: "nonempty_string (resolved world_env_null ''ELFA_AI_BASE_URL'')
            \<and> nonempty_string (resolved world_env_null ''ELFA_AI_API_KEY'')"
    by (simp add: resolved_world_env_null nonempty_string_def)
  have bad: "\<not> nonempty_string (resolved world_unset ''ELFA_AI_BASE_URL'')"
    "\<not> nonempty_string (resolved world_unset ''ELFA_AI_API_KEY'')"
    by (simp_all add: resolved_world_unset nonempty_string_def)
  from validateElfaAiConfig_resolves [of world_env_null] ok
  have 1: "validateElfaAiConfig world_env_null
     = Inr \<lparr>ELFA_AI_BASE_URL = ''https://api.elfa.ai'', ELFA_AI_API_KEY = ''test-key''\<rparr>"
    by (simp add: resolved_world_env_null)
  from validateElfaAiConfig_resolves [of world_unset] bad
  have 2: "validateElfaAiConfig world_unset = Inl (Error (config_error_message world_unset))"
    and 3: "sublist (''ELFA_AI_BASE_URL'' @ '': '') (config_error_message world_unset)"
    and 4: "sublist (''ELFA_AI_API_KEY'' @ '': '') (config_error_message world_unset)"
    by blast+
  from 1 2 3 4 show ?thesis by (simp only: world_unset_message simp_thms)
qed




lemma plain_actions_cases:
  "(a, p) \<in> set plain_actions \<Longrightarrow>
     (a = elfaPingAction \<and> p = ''/v1/ping'') \<or> (a = elfaApiKeyStatusAction \<and> p = ''/v1/key-status'')"
  by (auto simp: plain_actions_def)

lemma action_paths_cases:
  "(a, p) \<in> set action_paths \<Longrightarrow>
     (a, p) \<in> set plain_actions \<or> (\<exists>x. (a, x) \<in> set extracting_actions \<and> p = ex_path x)"
  by (auto simp: action_paths_def)


lemma pipeline_requests:
  assumes "EvHttpGet req \<in> set (fst (pipeline act x w m st cb))"
  shows "\<exists>us content.
           state_result w m st = Inr us
         \<and> generateObject w (composeContext w us (ex_template x)) (ex_schema x) = Inr content
         \<and> ex_guard x content = Inr True
         \<and> req = \<lparr>url = toString (getSetting w ''ELFA_AI_BASE_URL'') @ ex_path x,
                   headers = elfa_headers (getSetting w ''ELFA_AI_API_KEY''),
                   params = Some (query_params (ex_params x) content)\<rparr>"
  using assms unfolding pipeline_cases
  by (cases st) (auto simp: state_event_def split: sum.splits if_splits)

lemma plain_requests:
  assumes "(a, p) \<in> set plain_actions"
  shows "EvHttpGet req \<in> set (fst (handler a w m st cb)) \<longleftrightarrow>
           req = \<lparr>url = toString (getSetting w ''ELFA_AI_BASE_URL'') @ p,
                   headers = elfa_headers (getSetting w ''ELFA_AI_API_KEY''),
                   params = None\<rparr>"
  using plain_actions_cases [OF assms]
  by (auto simp: ping_cases key_status_cases split: sum.splits)

lemma requests_carry_settings:
  assumes "(a, p) \<in> set action_paths" and "EvHttpGet req \<in> set (fst (handler a w m st cb))"
  shows "url req = toString (getSetting w ''ELFA_AI_BASE_URL'') @ p
         \<and> headers req = elfa_headers (getSetting w ''ELFA_AI_API_KEY'')"
proof -
  from action_paths_cases [OF assms(1)] show ?thesis
  proof (elim disjE exE conjE)
    assume "(a, p) \<in> set plain_actions"
    from plain_requests [OF this] assms(2) show ?thesis by simp
  next
    fix x assume x: "(a, x) \<in> set extracting_actions" and p: "p = ex_path x"
    from assms(2) have "EvHttpGet req \<in> set (fst (pipeline (name a) x w m st cb))"
      by (simp add: handler_pipeline [OF x])
    from pipeline_requests [OF this] p show ?thesis by auto
  qed
qed






lemma world_ok_simps:
  "getSetting world_ok ''ELFA_AI_BASE_URL'' = JStr ''https://api.elfa.ai''"
  "getSetting world_ok ''ELFA_AI_API_KEY'' = JStr ''test-key''"
  "axios_get world_ok r = Inr (JObj [(''status'', JStr ''ok'')])"
  "generateText world_ok p = Inr ''SUMMARY''"
  "generateObject world_ok c n = Inr (JObj [(''ticker'', JStr ''SOL'')])"
  "composeState world_ok m = Inr m"
  "updateRecentMessageState world_ok s = Inr s"
  "composeContext world_ok s t = s"
  "process_env world_ok k = None"
  by (simp_all add: world_ok_def)











lemma world_env_null_simps:
  "getSetting world_env_null k = JNull"
  "axios_get world_env_null r = Inr (JObj [(''status'', JStr ''ok'')])"
  by (simp_all add: world_env_null_def world_ok_def)

text \<open>
Claim C8 fails where the configuration comes from the environment: the settings lookup
  answers \<open>null\<close>, both environment variables are set, \<open>validate\<close> succeeds and the
  resolver yields base URL and key, but Ping requests \<open>null/v1/ping\<close> with a \<open>null\<close>
  API key header.
\<close>

theorem ping_ignores_environment_configuration:
  "validate elfaPingAction world_env_null = Inr True
   \<and> validateElfaAiConfig world_env_null
       = Inr \<lparr>ELFA_AI_BASE_URL = ''https://api.elfa.ai'', ELFA_AI_API_KEY = ''test-key''\<rparr>
   \<and> handler elfaPingAction world_env_null ''ping elfa'' None True =
       ([EvGetSetting ''ELFA_AI_BASE_URL'', EvGetSetting ''ELFA_AI_API_KEY'',
         EvHttpGet \<lparr>url = ''null/v1/ping'',
                    headers = [(''Content-Type'', JStr ''application/json''),
                               (''x-elfa-api-key'', JNull)],
                    params = None\<rparr>,
         EvCallback \<lparr>msg_text = ''Elfa AI API is up and running. Response: ''
                                  @ ''{'' @ DQ @ ''status'' @ DQ @ '':'' @ DQ @ ''ok'' @ DQ @ ''}'',
                     msg_action = Some ''ELFA_PING'', msg_content = None\<rparr>,
         EvLogInfo ''Elfa AI API is up and running'' (JObj [(''status'', JStr ''ok'')])],
        Inr True)"
proof (intro conjI)
  show "validate elfaPingAction world_env_null = Inr True"
    by (simp add: elfaPingAction_def elfaPingAction_validate_def validateElfaAiConfig_cases
        resolved_world_env_null nonempty_string_def)
  show "validateElfaAiConfig world_env_null
       = Inr \<lparr>ELFA_AI_BASE_URL = ''https://api.elfa.ai'', ELFA_AI_API_KEY = ''test-key''\<rparr>"
    by (simp add: validateElfaAiConfig_cases resolved_world_env_null nonempty_string_def)
  show "handler elfaPingAction world_env_null ''ping elfa'' None True =
       ([EvGetSetting ''ELFA_AI_BASE_URL'', EvGetSetting ''ELFA_AI_API_KEY'',
         EvHttpGet \<lparr>url = ''null/v1/ping'',
                    headers = [(''Content-Type'', JStr ''application/json''),
                               (''x-elfa-api-key'', JNull)],
                    params = None\<rparr>,
         EvCallback \<lparr>msg_text = ''Elfa AI API is up and running. Response: ''
                                  @ ''{'' @ DQ @ ''status'' @ DQ @ '':'' @ DQ @ ''ok'' @ DQ @ ''}'',
                     msg_action = Some ''ELFA_PING'', msg_content = None\<rparr>,
         EvLogInfo ''Elfa AI API is up and running'' (JObj [(''status'', JStr ''ok'')])],
        Inr True)"
    by (simp add: ping_cases world_env_null_simps elfa_headers_def DQ_def quote_def escape_char_def
        intercalate_simps)
qed

text \<open>
Where both values come from the settings lookup, every request of every action carries
  the resolved API key and targets the resolved base URL followed by the action's path.
\<close>

lemma requests_carry_configuration:
  assumes "truthy (getSetting w ''ELFA_AI_BASE_URL'')" and "truthy (getSetting w ''ELFA_AI_API_KEY'')"
    and "validateElfaAiConfig w = Inr cfg"
    and "(a, p) \<in> set action_paths"
    and "EvHttpGet req \<in> set (fst (handler a w m st cb))"
  shows "url req = ELFA_AI_BASE_URL cfg @ p
         \<and> headers req = [(''Content-Type'', JStr ''application/json''),
                           (''x-elfa-api-key'', JStr (ELFA_AI_API_KEY cfg))]"
proof -
  have r: "resolved w ''ELFA_AI_BASE_URL'' = getSetting w ''ELFA_AI_BASE_URL''"
    "resolved w ''ELFA_AI_API_KEY'' = getSetting w ''ELFA_AI_API_KEY''"
    using assms(1,2) by (simp_all add: resolved_def)
  from assms(3) have ok: "nonempty_string (getSetting w ''ELFA_AI_BASE_URL'')"
    "nonempty_string (getSetting w ''ELFA_AI_API_KEY'')"
    and cfg: "cfg = \<lparr>ELFA_AI_BASE_URL = toString (getSetting w ''ELFA_AI_BASE_URL''),
                     ELFA_AI_API_KEY = toString (getSetting w ''ELFA_AI_API_KEY'')\<rparr>"
    by (auto simp: validateElfaAiConfig_cases r split: if_splits)
  from requests_carry_settings [OF assms(4,5)] ok cfg show ?thesis
    by (simp add: elfa_headers_def nonempty_string_toString)
qed

text \<open>
Ping with base URL \<open>https://api.elfa.ai\<close> in the settings and the answer \<open>{"status":"ok"}\<close>.
\<close>

lemma ping_scenario:
  "handler elfaPingAction world_ok ''ping elfa'' None True =
       ([EvGetSetting ''ELFA_AI_BASE_URL'', EvGetSetting ''ELFA_AI_API_KEY'',
         EvHttpGet \<lparr>url = ''https://api.elfa.ai/v1/ping'',
                    headers = [(''Content-Type'', JStr ''application/json''),
                               (''x-elfa-api-key'', JStr ''test-key'')],
                    params = None\<rparr>,
         EvCallback \<lparr>msg_text = ''Elfa AI API is up and running. Response: ''
                                  @ ''{'' @ DQ @ ''status'' @ DQ @ '':'' @ DQ @ ''ok'' @ DQ @ ''}'',
                     msg_action = Some ''ELFA_PING'', msg_content = None\<rparr>,
         EvLogInfo ''Elfa AI API is up and running'' (JObj [(''status'', JStr ''ok'')])],
        Inr True)"
  by (simp add: ping_cases world_ok_simps elfa_headers_def DQ_def quote_def escape_char_def
      intercalate_simps)

lemma world_empty_content_simps:
  "getSetting world_empty_content = getSetting world_ok"
  "generateObject world_empty_content c n = Inr (JObj [])"
  "composeState world_empty_content m = Inr m"
  "updateRecentMessageState world_empty_content s = Inr s"
  "composeContext world_empty_content s t = s"
  by (simp_all add: world_empty_content_def world_ok_def)

text \<open>
Claim C2 fails for Smart Mentions: on an extraction that omits \<open>limit\<close> and
  \<open>offset\<close> the handler reports invalid content and returns false; no request with
  \<open>limit=100, offset=0\<close> is dispatched.
\<close>

theorem smart_mentions_rejects_omitted_parameters:
  "handler elfaGetSmartMentions world_empty_content ''get smart mentions'' (Some ''recent messages'') True =
     ([EvGetSetting ''ELFA_AI_BASE_URL'', EvGetSetting ''ELFA_AI_API_KEY'',
       EvUpdateRecentMessageState ''recent messages'',
       EvGenerateObject ''recent messages'' ''GetSmartMentionsSchema'',
       EvCallback \<lparr>msg_text = ''Unable to process get smart mentions request. Invalid content provided.'',
                   msg_action = None,
                   msg_content = Some [(''error'', JStr ''Invalid get smart mentions content'')]\<rparr>],
      Inr False)"
  by (simp add: smart_pipeline pipeline_cases state_result_def state_event_def world_empty_content_simps
      getSmartMentions_extraction_def isGetSmartMentionsContent_def nullish_def)

text \<open>
What does hold: the query parameters of a dispatched request are the extracted values
  with the declared default for each \<open>undefined\<close> one.
\<close>

lemma dispatched_params:
  assumes "(a, x) \<in> set extracting_actions"
    and "EvHttpGet req \<in> set (fst (handler a w m st cb))"
  shows "\<exists>us content.
           state_result w m st = Inr us
         \<and> generateObject w (composeContext w us (ex_template x)) (ex_schema x) = Inr content
         \<and> ex_guard x content = Inr True
         \<and> params req = Some (query_params (ex_params x) content)"
proof -
  from assms(2) have "EvHttpGet req \<in> set (fst (pipeline (name a) x w m st cb))"
    by (simp add: handler_pipeline [OF assms(1)])
  from pipeline_requests [OF this] show ?thesis by auto
qed

text \<open>
Top Mentions on the extraction \<open>{ticker: "SOL"}\<close>.
\<close>

lemma top_mentions_sol_params:
  "EvHttpGet \<lparr>url = ''https://api.elfa.ai/v1/top-mentions'',
              headers = [(''Content-Type'', JStr ''application/json''),
                         (''x-elfa-api-key'', JStr ''test-key'')],
              params = Some [(''ticker'', JStr ''SOL''), (''timeWindow'', JStr ''1h''),
                             (''page'', JNum 1), (''pageSize'', JNum 10),
                             (''includeAccountDetails'', JBool False)]\<rparr>
     \<in> set (fst (handler elfaGetTopMentionsAction world_ok ''top mentions for SOL'' None True))"
  by (simp add: top_pipeline pipeline_cases state_result_def world_ok_simps getTopMentions_extraction_def
      isGetTopMentionsContent_def nullish_def strict_eq_def query_params_def elfa_headers_def)

lemma world_bad_page_simps:
  "getSetting world_bad_page = getSetting world_ok"
  "generateObject world_bad_page c n = Inr (JObj [(''timeWindow'', JStr ''24h''), (''page'', JStr ''abc'')])"
  "composeState world_bad_page m = Inr m"
  "composeContext world_bad_page s t = s"
  "axios_get world_bad_page r = Inr (JObj [(''status'', JStr ''ok'')])"
  "generateText world_bad_page p = Inr ''SUMMARY''"
  by (simp_all add: world_bad_page_def world_ok_def)

text \<open>
Claim C3 fails for Trending Tokens: on an extraction whose \<open>page\<close> is a string the
  handler dispatches the request, with that string as \<open>page\<close>, and returns true.
\<close>

theorem trending_dispatches_wrong_typed_page:
  "snd (handler elfaGetTrendingTokens world_bad_page ''get trending tokens'' None True) = Inr True
   \<and> EvHttpGet \<lparr>url = ''https://api.elfa.ai/v1/trending-tokens'',
                 headers = [(''Content-Type'', JStr ''application/json''),
                            (''x-elfa-api-key'', JStr ''test-key'')],
                 params = Some [(''timeWindow'', JStr ''24h''), (''page'', JStr ''abc''),
                                (''pageSize'', JNum 50), (''minMentions'', JNum 5)]\<rparr>
       \<in> set (fst (handler elfaGetTrendingTokens world_bad_page ''get trending tokens'' None True))"
  by (simp add: trending_pipeline pipeline_cases state_result_def world_bad_page_simps world_ok_simps
      getTrendingTokens_extraction_def isGetTrendingTokensContent_def nullish_def strict_eq_def
      query_params_def elfa_headers_def)

text \<open>
What does hold: a content the action's type guard rejects stops the handler before any request.
\<close>

lemma rejected_content_halts:
  assumes "(a, x) \<in> set extracting_actions"
    and "state_result w m st = Inr us"
    and "generateObject w (composeContext w us (ex_template x)) (ex_schema x) = Inr content"
    and "ex_guard x content = Inr False"
  shows "snd (handler a w m st cb) = Inr False
         \<and> Dispatch \<notin> set (map step_of (fst (handler a w m st cb)))"
  using assms(2-4) by (auto simp: handler_pipeline [OF assms(1)] pipeline_invalid)

text \<open>
The other four type guards accept only contents whose fields have the declared types.
\<close>

lemma sound_guards:
  "isGetSmartMentionsContent c = Inr True \<Longrightarrow>
     typeof (js_get c ''limit'') = ''number'' \<and> typeof (js_get c ''offset'') = ''number''"
  "isGetTopMentionsContent c = Inr True \<Longrightarrow>
     typeof (js_get c ''ticker'') = ''string''
     \<and> typeof (js_get c ''timeWindow'') \<in> {''undefined'', ''string''}
     \<and> typeof (js_get c ''page'') \<in> {''undefined'', ''number''}
     \<and> typeof (js_get c ''pageSize'') \<in> {''undefined'', ''number''}
     \<and> typeof (js_get c ''includeAccountDetails'') \<in> {''undefined'', ''boolean''}"
  "isGetSearchMentionsByKeywordsContent c = Inr True \<Longrightarrow>
     typeof (js_get c ''keywords'') = ''string''
     \<and> typeof (js_get c ''from'') = ''number''
     \<and> typeof (js_get c ''to'') = ''number''
     \<and> typeof (js_get c ''limit'') \<in> {''undefined'', ''number''}"
  "isGetTwitterAccountStatsContent c = Inr True \<Longrightarrow> typeof (js_get c ''username'') = ''string''"
  by (auto simp: isGetSmartMentionsContent_def isGetTopMentionsContent_def
      isGetSearchMentionsByKeywordsContent_def isGetTwitterAccountStatsContent_def
      strict_eq_def split: if_splits)

text \<open>
Search Mentions on an extraction with \<open>from\<close> and \<open>to\<close> but no \<open>keywords\<close>.
\<close>

lemma search_without_keywords_halts:
  "handler elfaGetSearchMentionsByKeywordsAction world_no_keywords ''search mentions'' None True =
     ([EvGetSetting ''ELFA_AI_BASE_URL'', EvGetSetting ''ELFA_AI_API_KEY'',
       EvComposeState ''search mentions'',
       EvGenerateObject ''search mentions'' ''getSearchMentionsByKeywordsSchema'',
       EvCallback \<lparr>msg_text = ''Unable to search for tweets by the keywords provided. Invalid content provided.'',
                   msg_action = None,
                   msg_content = Some [(''error'', JStr ''Invalid get search mentions by keywords content'')]\<rparr>],
      Inr False)"
  by (simp add: search_pipeline pipeline_cases state_result_def state_event_def
      world_no_keywords_def world_ok_def getSearchMentionsByKeywords_extraction_def
      isGetSearchMentionsByKeywordsContent_def nullish_def strict_eq_def)

end
